theory Spec2Isabelle
  imports Main
begin

section \<open>Time\<close>

text \<open>
  A \<^verbatim>\<open>time.Time\<close> is an instant, counted in nanoseconds from the Unix epoch, and a
  \<^verbatim>\<open>time.Duration\<close> a number of nanoseconds. Both are unbounded integers here.
\<close>

type_synonym time = int
type_synonym duration = int

definition Second :: duration where
  "Second = 1000000000"

definition Minute :: duration where
  "Minute = 60 * Second"

definition Hour :: duration where
  "Hour = 60 * Minute"

definition Millisecond :: duration where
  "Millisecond = 1000000"

text \<open>
  A date of the store is a whole number of milliseconds from the epoch: the driver cuts an
  instant down to the millisecond when it writes it, in a document and in a filter alike.
  \<open>bsonDate t\<close> is the instant that is read back.
\<close>

definition bsonDate :: "time \<Rightarrow> time" where
  "bsonDate t = t - t mod Millisecond"

section \<open>Documents\<close>

type_synonym ObjectID = "nat list"

definition NilObjectID :: ObjectID where
  "NilObjectID = replicate 12 0"

record User =
  ID :: ObjectID
  Email :: string
  Password :: string
  Name :: string
  CreatedAt :: time
  UpdatedAt :: time
  IsActive :: bool
  IsDeleted :: bool

text \<open>
  The fields of the other document types carry the same names in the source; they are
  prefixed here (\<open>Token\<close>, \<open>Attempt\<close>) where a name is already taken by \<open>User\<close>.
\<close>

record InvalidatedToken =
  TokenID :: ObjectID
  Token :: string
  TokenUserID :: ObjectID
  TokenExpiresAt :: time
  TokenCreatedAt :: time

record LoginAttempt =
  AttemptID :: ObjectID
  AttemptEmail :: string
  IPAddress :: string
  Timestamp :: time
  Success :: bool

text \<open>Each kind of document as the store keeps it: its dates cut to the millisecond.\<close>

definition bsonUser :: "User \<Rightarrow> User" where
  "bsonUser u = u\<lparr>CreatedAt := bsonDate (CreatedAt u), UpdatedAt := bsonDate (UpdatedAt u)\<rparr>"

definition bsonToken :: "InvalidatedToken \<Rightarrow> InvalidatedToken" where
  "bsonToken d =
     d\<lparr>TokenExpiresAt := bsonDate (TokenExpiresAt d), TokenCreatedAt := bsonDate (TokenCreatedAt d)\<rparr>"

definition bsonAttempt :: "LoginAttempt \<Rightarrow> LoginAttempt" where
  "bsonAttempt a = a\<lparr>Timestamp := bsonDate (Timestamp a)\<rparr>"

section \<open>The store\<close>

text \<open>
  A collection holds its documents in insertion order. The outcome of the input and
  output of one call is part of the state: \<open>read_fault\<close> makes every read of the
  collection fail with the given message (a timeout, a lost connection), and
  \<open>write_fault\<close> every write. No handler of the program reads or writes one collection
  twice, so the two flags give each store operation of a call its own outcome.
\<close>

record 'a Collection =
  docs :: "'a list"
  read_fault :: "string option"
  write_fault :: "string option"

datatype mongo_error = ErrNoDocuments | DuplicateKey | CommandError string

definition FindOne :: "'a Collection \<Rightarrow> ('a \<Rightarrow> bool) \<Rightarrow> mongo_error + 'a" where
  "FindOne c flt =
     (case read_fault c of
        Some e \<Rightarrow> Inl (CommandError e)
      | None \<Rightarrow> (case find flt (docs c) of
                   None \<Rightarrow> Inl ErrNoDocuments
                 | Some d \<Rightarrow> Inr d))"

definition CountDocuments :: "'a Collection \<Rightarrow> ('a \<Rightarrow> bool) \<Rightarrow> mongo_error + nat" where
  "CountDocuments c flt =
     (case read_fault c of
        Some e \<Rightarrow> Inl (CommandError e)
      | None \<Rightarrow> Inr (length (filter flt (docs c))))"

text \<open>
  \<open>InsertOne\<close> takes the encoding of the documents of the collection, which is what
  it appends, and the fields that \<^verbatim>\<open>createIndexes\<close> declares unique for the
  collection: \<^verbatim>\<open>email\<close> for the users, \<^verbatim>\<open>token\<close> for the invalidated tokens, none
  for the login attempts.
\<close>

definition InsertOne ::
  "('a \<Rightarrow> 'a) \<Rightarrow> ('a \<Rightarrow> string) list \<Rightarrow> 'a Collection \<Rightarrow> 'a \<Rightarrow> mongo_error + 'a Collection" where
  "InsertOne bson uniq c d =
     (case write_fault c of
        Some e \<Rightarrow> Inl (CommandError e)
      | None \<Rightarrow>
          if list_ex (\<lambda>k. list_ex (\<lambda>d'. k d' = k d) (docs c)) uniq then Inl DuplicateKey
          else Inr (c\<lparr>docs := docs c @ [bson d]\<rparr>))"

record Database =
  Users :: "User Collection"
  Tokens :: "InvalidatedToken Collection"
  Attempts :: "LoginAttempt Collection"

text \<open>
  The world a call runs in: the database, the clock and the identifiers the driver will
  draw for new documents. \<open>clock\<close> is the last instant read; each \<^verbatim>\<open>time.Now()\<close> moves it
  forward by the next of \<open>ticks\<close>, so successive readings never decrease.
\<close>

record World =
  db :: Database
  clock :: time
  ticks :: "nat list"
  oids :: "ObjectID list"

definition Now :: "World \<Rightarrow> time \<times> World" where
  "Now w =
     (case ticks w of
        [] \<Rightarrow> (clock w, w)
      | d # ds \<Rightarrow> (clock w + int d, w\<lparr>clock := clock w + int d, ticks := ds\<rparr>))"

definition NewObjectID :: "World \<Rightarrow> ObjectID \<times> World" where
  "NewObjectID w =
     (case oids w of
        [] \<Rightarrow> (NilObjectID, w)
      | x # xs \<Rightarrow> (x, w\<lparr>oids := xs\<rparr>))"

section \<open>JSON Web Tokens\<close>

datatype SigningMethod = SigningMethodHMAC string | SigningMethodOther string

text \<open>
  \<^verbatim>\<open>JWTClaims\<close> with the registered claims it embeds; a registered date is a pointer in
  the library and may be absent.
\<close>

record JWTClaims =
  UserID :: string
  ClaimsEmail :: string
  ExpiresAt :: "time option"
  IssuedAt :: "time option"
  NotBefore :: "time option"
  Subject :: string

text \<open>\<^verbatim>\<open>jwt.Token\<close>, with the fields the program reads.\<close>

record JWT =
  Method :: SigningMethod
  Claims :: JWTClaims
  Valid :: bool

datatype jwt_error =
    jwt_ErrTokenMalformed
  | jwt_ErrTokenUnverifiable
  | jwt_ErrTokenSignatureInvalid
  | jwt_ErrTokenInvalidClaims
  | jwt_ErrTokenExpired
  | jwt_ErrTokenNotValidYet

text \<open>
  The functions of the imported packages that the program calls and whose results are
  not computed here: the token codec and its signatures, the identifier codec, the
  password hash, the address parser and the Unicode tables. Every theorem holds for
  whatever these functions return, unless it states a hypothesis about them.
\<close>

record Lib =
  ParseUnverified :: "string \<Rightarrow> jwt_error + JWT"
  Verify :: "SigningMethod \<Rightarrow> string \<Rightarrow> string \<Rightarrow> bool"
  SignedString :: "SigningMethod \<Rightarrow> string \<Rightarrow> JWTClaims \<Rightarrow> string + string"
  ObjectIDFromHex :: "string \<Rightarrow> string + ObjectID"
  Hex :: "ObjectID \<Rightarrow> string"
  CompareHashAndPassword :: "string \<Rightarrow> string \<Rightarrow> bool"
  GenerateFromPassword :: "string \<Rightarrow> string + string"
  ParseAddress :: "string \<Rightarrow> bool"
  TrimSpace :: "string \<Rightarrow> string"
  runes :: "string \<Rightarrow> nat list"
  IsLetter :: "nat \<Rightarrow> bool"

text \<open>\<^verbatim>\<open>jwt.NewNumericDate\<close> truncates an instant to the second.\<close>

definition NewNumericDate :: "time \<Rightarrow> time" where
  "NewNumericDate t = t - t mod Second"

text \<open>
  The library's validator with its default options: an expiry that is not after the
  current instant and a not-before date that is after it are errors, an absent date is
  not.
\<close>

definition Validate :: "time \<Rightarrow> JWTClaims \<Rightarrow> jwt_error list" where
  "Validate now c =
     (case ExpiresAt c of
        Some e \<Rightarrow> if now < e then [] else [jwt_ErrTokenExpired]
      | None \<Rightarrow> [])
     @ (case NotBefore c of
          Some n \<Rightarrow> if now < n then [jwt_ErrTokenNotValidYet] else []
        | None \<Rightarrow> [])"

text \<open>
  \<^verbatim>\<open>jwt.ParseWithClaims\<close>: decode, ask the caller's key function for the key, verify the
  signature, then validate the claims against the clock. The error is the list of the
  library's error kinds it wraps.
\<close>

definition ParseWithClaims ::
  "Lib \<Rightarrow> string \<Rightarrow> (JWT \<Rightarrow> string + string) \<Rightarrow> World \<Rightarrow> (jwt_error list + JWT) \<times> World" where
  "ParseWithClaims lib tokenString keyFunc w =
     (case ParseUnverified lib tokenString of
        Inl e \<Rightarrow> (Inl [e], w)
      | Inr token \<Rightarrow>
          (case keyFunc token of
             Inl msg \<Rightarrow> (Inl [jwt_ErrTokenUnverifiable], w)
           | Inr key \<Rightarrow>
               if \<not> Verify lib (Method token) tokenString key
               then (Inl [jwt_ErrTokenSignatureInvalid], w)
               else
                 (let (now, w1) = Now w; errs = Validate now (Claims token)
                  in if errs = [] then (Inr (token\<lparr>Valid := True\<rparr>), w1)
                     else (Inl (jwt_ErrTokenInvalidClaims # errs), w1))))"

section \<open>The token service\<close>

text \<open>
  The three errors the package declares, and the errors its methods build around the
  error of a callee: \<^verbatim>\<open>error checking token blacklist\<close>, \<^verbatim>\<open>invalid user ID\<close> and
  \<^verbatim>\<open>failed to invalidate token\<close>.
\<close>

datatype auth_error =
    ErrInvalidToken
  | ErrTokenExpired
  | ErrTokenBlacklisted
  | BlacklistCheckError mongo_error
  | InvalidUserID string
  | InvalidateFailed mongo_error

record JWTService =
  secretKey :: string
  tokenTTL :: duration

definition NewJWTService :: "string \<Rightarrow> duration \<Rightarrow> JWTService" where
  "NewJWTService key ttl = \<lparr>secretKey = key, tokenTTL = ttl\<rparr>"

definition GenerateToken :: "Lib \<Rightarrow> JWTService \<Rightarrow> string \<Rightarrow> string \<Rightarrow> World \<Rightarrow> (string + string) \<times> World" where
  "GenerateToken lib j userID email w =
     (let (t1, w1) = Now w; (t2, w2) = Now w1; (t3, w3) = Now w2;
          claims = \<lparr>UserID = userID, ClaimsEmail = email,
                    ExpiresAt = Some (NewNumericDate (t1 + tokenTTL j)),
                    IssuedAt = Some (NewNumericDate t2),
                    NotBefore = Some (NewNumericDate t3),
                    Subject = userID\<rparr>
      in (SignedString lib (SigningMethodHMAC ''HS256'') (secretKey j) claims, w3))"

definition ValidateToken :: "Lib \<Rightarrow> JWTService \<Rightarrow> string \<Rightarrow> World \<Rightarrow> (auth_error + JWTClaims) \<times> World" where
  "ValidateToken lib j tokenString w =
     (case FindOne (Tokens (db w)) (\<lambda>d. Token d = tokenString) of
        Inr invalidatedToken \<Rightarrow> (Inl ErrTokenBlacklisted, w)
      | Inl err \<Rightarrow>
          if err \<noteq> ErrNoDocuments then (Inl (BlacklistCheckError err), w)
          else
            (case ParseWithClaims lib tokenString
                    (\<lambda>token. case Method token of
                                SigningMethodHMAC a \<Rightarrow> Inr (secretKey j)
                              | SigningMethodOther a \<Rightarrow> Inl (''unexpected signing method: '' @ a)) w of
               (Inl errs, w1) \<Rightarrow>
                 if jwt_ErrTokenExpired \<in> set errs then (Inl ErrTokenExpired, w1)
                 else (Inl ErrInvalidToken, w1)
             | (Inr token, w1) \<Rightarrow>
                 if \<not> Valid token then (Inl ErrInvalidToken, w1)
                 else (Inr (Claims token), w1)))"

text \<open>
  A call either returns or panics: \<^verbatim>\<open>claims.ExpiresAt.Time\<close> dereferences a pointer
  that is nil for a token without an expiry claim.
\<close>

datatype 'a go = Returns 'a | Panics

definition InvalidateToken ::
  "Lib \<Rightarrow> JWTService \<Rightarrow> string \<Rightarrow> string \<Rightarrow> World \<Rightarrow> (auth_error option) go \<times> World" where
  "InvalidateToken lib j tokenString userID w =
     (case ParseWithClaims lib tokenString (\<lambda>token. Inr (secretKey j)) w of
        (parsed, w1) \<Rightarrow>
          (case (case parsed of
                   Inr token \<Rightarrow> (ExpiresAt (Claims token), w1)
                 | Inl errs \<Rightarrow> (let (now, w2) = Now w1 in (Some (now + tokenTTL j), w2))) of
             (None, w2) \<Rightarrow> (Panics, w2)
           | (Some expiryTime, w2) \<Rightarrow>
               (case ObjectIDFromHex lib userID of
                  Inl e \<Rightarrow> (Returns (Some (InvalidUserID e)), w2)
                | Inr userObjectID \<Rightarrow>
                    (let (now, w3) = Now w2;
                         invalidatedToken = \<lparr>TokenID = NilObjectID, Token = tokenString,
                                              TokenUserID = userObjectID,
                                              TokenExpiresAt = expiryTime,
                                              TokenCreatedAt = now\<rparr>;
                         (oid, w4) = NewObjectID w3
                     in case InsertOne bsonToken [Token] (Tokens (db w4)) (invalidatedToken\<lparr>TokenID := oid\<rparr>) of
                          Inl e \<Rightarrow> (Returns (Some (InvalidateFailed e)), w4)
                        | Inr c \<Rightarrow> (Returns None, w4\<lparr>db := (db w4)\<lparr>Tokens := c\<rparr>\<rparr>)))))"

definition ExtractUserIDFromToken :: "Lib \<Rightarrow> JWTService \<Rightarrow> string \<Rightarrow> World \<Rightarrow> (auth_error + string) \<times> World" where
  "ExtractUserIDFromToken lib j tokenString w =
     (case ValidateToken lib j tokenString w of
        (Inl err, w1) \<Rightarrow> (Inl err, w1)
      | (Inr claims, w1) \<Rightarrow> (Inr (UserID claims), w1))"

section \<open>Input validation\<close>

definition MinPasswordLength :: nat where
  "MinPasswordLength = 8"

definition MaxPasswordLength :: nat where
  "MaxPasswordLength = 128"

definition MaxNameLength :: nat where
  "MaxNameLength = 50"

definition MaxEmailLength :: nat where
  "MaxEmailLength = 128"

text \<open>
  The password patterns. \<^verbatim>\<open>.{8,}\<close> asks for eight consecutive code points none of
  which is a line feed; the other four ask for one byte of a class of ASCII characters.
\<close>

fun min_len_run :: "nat \<Rightarrow> nat list \<Rightarrow> bool" where
  "min_len_run n [] = (8 \<le> n)"
| "min_len_run n (r # rs) = (8 \<le> n \<or> (if r = 10 then min_len_run 0 rs else min_len_run (Suc n) rs))"

definition hasMinLen :: "Lib \<Rightarrow> string \<Rightarrow> bool" where
  "hasMinLen lib s = min_len_run 0 (runes lib s)"

definition hasUpper :: "string \<Rightarrow> bool" where
  "hasUpper s = list_ex (\<lambda>c. c \<in> set ''ABCDEFGHIJKLMNOPQRSTUVWXYZ'') s"

definition hasLower :: "string \<Rightarrow> bool" where
  "hasLower s = list_ex (\<lambda>c. c \<in> set ''abcdefghijklmnopqrstuvwxyz'') s"

definition hasNumber :: "string \<Rightarrow> bool" where
  "hasNumber s = list_ex (\<lambda>c. c \<in> set ''0123456789'') s"

definition hasSpecial :: "string \<Rightarrow> bool" where
  "hasSpecial s =
     list_ex (\<lambda>c. c \<in> set (''!@#$%^&*()_+-=[]{};:|,.<>/?'' @ [CHR 0x27, CHR 0x22, CHR 0x5C])) s"

record ValidationError =
  Field :: string
  Message :: string

definition ValidationError_Error :: "ValidationError \<Rightarrow> string" where
  "ValidationError_Error e = Field e @ '': '' @ Message e"

definition ValidateEmail :: "Lib \<Rightarrow> string \<Rightarrow> ValidationError option" where
  "ValidateEmail lib email =
     (if length email = 0 then Some \<lparr>Field = ''email'', Message = ''email is required''\<rparr>
      else if length email > MaxEmailLength
        then Some \<lparr>Field = ''email'', Message = ''email is too long''\<rparr>
      else if \<not> ParseAddress lib email
        then Some \<lparr>Field = ''email'', Message = ''invalid email format''\<rparr>
      else None)"

fun Join :: "string list \<Rightarrow> string \<Rightarrow> string" where
  "Join [] sep = []"
| "Join [x] sep = x"
| "Join (x # y # ys) sep = x @ sep @ Join (y # ys) sep"

definition ValidatePassword :: "Lib \<Rightarrow> string \<Rightarrow> ValidationError option" where
  "ValidatePassword lib password =
     (if length password = 0
        then Some \<lparr>Field = ''password'', Message = ''password is required''\<rparr>
      else if length password < MinPasswordLength
        then Some \<lparr>Field = ''password'', Message = ''password must be at least 8 characters''\<rparr>
      else if length password > MaxPasswordLength
        then Some \<lparr>Field = ''password'', Message = ''password must be less than 128 characters''\<rparr>
      else
        (let requirements =
               (if \<not> hasMinLen lib password then [''at least 8 characters''] else [])
             @ (if \<not> hasUpper password then [''at least one uppercase letter''] else [])
             @ (if \<not> hasLower password then [''at least one lowercase letter''] else [])
             @ (if \<not> hasNumber password then [''at least one number''] else [])
             @ (if \<not> hasSpecial password then [''at least one special character''] else [])
         in if length requirements > 0
            then Some \<lparr>Field = ''password'',
                       Message = ''password must contain '' @ Join requirements '', ''\<rparr>
            else None))"

definition ValidateName :: "Lib \<Rightarrow> string \<Rightarrow> string \<Rightarrow> ValidationError option" where
  "ValidateName lib name fieldName =
     (if length name = 0
        then Some \<lparr>Field = fieldName, Message = fieldName @ '' is required''\<rparr>
      else if length name > MaxNameLength
        then Some \<lparr>Field = fieldName, Message = fieldName @ '' is too long''\<rparr>
      else if list_ex (\<lambda>r. \<not> IsLetter lib r \<and> r \<noteq> 32 \<and> r \<noteq> 45 \<and> r \<noteq> 39) (runes lib name)
        then Some \<lparr>Field = fieldName, Message = fieldName @ '' contains invalid characters''\<rparr>
      else None)"

definition HashPassword :: "Lib \<Rightarrow> string \<Rightarrow> string + string" where
  "HashPassword lib password = GenerateFromPassword lib password"

definition CheckPasswordHash :: "Lib \<Rightarrow> string \<Rightarrow> string \<Rightarrow> bool" where
  "CheckPasswordHash lib password hash = CompareHashAndPassword lib hash password"

definition SanitizeString :: "Lib \<Rightarrow> string \<Rightarrow> string" where
  "SanitizeString lib s = TrimSpace lib s"

section \<open>The rate limiter\<close>

datatype limiter_error = CheckFailed mongo_error | RecordFailed mongo_error

definition CheckRateLimit :: "string \<Rightarrow> string \<Rightarrow> World \<Rightarrow> (bool \<times> limiter_error option) \<times> World" where
  "CheckRateLimit email ipAddress w =
     (let (now, w1) = Now w;
          oneMinuteAgo = now + (- 1) * Minute
      in case CountDocuments (Attempts (db w1))
                (\<lambda>a. AttemptEmail a = email \<and> IPAddress a = ipAddress \<and> Success a = False
                      \<and> Timestamp a \<ge> bsonDate oneMinuteAgo) of
           Inl err \<Rightarrow> ((False, Some (CheckFailed err)), w1)
         | Inr count \<Rightarrow> ((count < 5, None), w1))"

definition RecordLoginAttempt :: "string \<Rightarrow> string \<Rightarrow> bool \<Rightarrow> World \<Rightarrow> limiter_error option \<times> World" where
  "RecordLoginAttempt email ipAddress success w =
     (let (now, w1) = Now w;
          attempt = \<lparr>AttemptID = NilObjectID, AttemptEmail = email, IPAddress = ipAddress,
                     Timestamp = now, Success = success\<rparr>;
          (oid, w2) = NewObjectID w1
      in case InsertOne bsonAttempt [] (Attempts (db w2)) (attempt\<lparr>AttemptID := oid\<rparr>) of
           Inl err \<Rightarrow> (Some (RecordFailed err), w2)
         | Inr c \<Rightarrow> (None, w2\<lparr>db := (db w2)\<lparr>Attempts := c\<rparr>\<rparr>))"

section \<open>The authentication service\<close>

datatype Code =
    InvalidArgument
  | ResourceExhausted
  | NotFound
  | Unauthenticated
  | PermissionDenied
  | AlreadyExists
  | Internal

datatype Status = Status (StatusCode: Code) (StatusMessage: string)

record pbUser =
  pbId :: string
  pbEmail :: string
  pbName :: string
  pbCreatedAt :: time
  pbUpdatedAt :: time
  pbIsActive :: bool
  pbIsDeleted :: bool

text \<open>
  The messages of the three calls. Their fields are \<^verbatim>\<open>Email\<close>, \<^verbatim>\<open>Password\<close>,
  \<^verbatim>\<open>Name\<close>, \<^verbatim>\<open>Token\<close>, \<^verbatim>\<open>User\<close> and \<^verbatim>\<open>Message\<close> in the source, prefixed here by
  the message they belong to.
\<close>

record LoginRequest =
  ReqEmail :: string
  ReqPassword :: string

record LoginResponse =
  RespToken :: string
  RespUser :: pbUser
  RespMessage :: string

record LogoutRequest =
  ReqToken :: string

record RegisterRequest =
  RegEmail :: string
  RegPassword :: string
  RegName :: string

record RegisterResponse =
  RegUser :: pbUser
  RegMessage :: string

record AuthService =
  jwtService :: JWTService

text \<open>
  The incoming metadata of a call, when the context carries any: each key gives its
  list of values.
\<close>

type_synonym metadata = "(string \<Rightarrow> string list) option"

definition getClientIP :: "metadata \<Rightarrow> string" where
  "getClientIP ctx =
     (case ctx of
        None \<Rightarrow> ''unknown''
      | Some md \<Rightarrow>
          (case md ''x-real-ip'' of
             x # xs \<Rightarrow> x
           | [] \<Rightarrow> (case md ''x-forwarded-for'' of
                      y # ys \<Rightarrow> y
                    | [] \<Rightarrow> ''unknown'')))"

definition toProto :: "Lib \<Rightarrow> User \<Rightarrow> pbUser" where
  "toProto lib user =
     \<lparr>pbId = Hex lib (ID user), pbEmail = Email user, pbName = Name user,
      pbCreatedAt = CreatedAt user, pbUpdatedAt = UpdatedAt user,
      pbIsActive = IsActive user, pbIsDeleted = IsDeleted user\<rparr>"

definition Login ::
  "Lib \<Rightarrow> AuthService \<Rightarrow> metadata \<Rightarrow> LoginRequest \<Rightarrow> World \<Rightarrow> (Status + LoginResponse) \<times> World" where
  "Login lib s ctx req w =
     (let clientIP = getClientIP ctx in
      case ValidateEmail lib (ReqEmail req) of
        Some err \<Rightarrow> (Inl (Status InvalidArgument (ValidationError_Error err)), w)
      | None \<Rightarrow>
          if ReqPassword req = [] then (Inl (Status InvalidArgument ''password is required''), w)
          else
            (case CheckRateLimit (ReqEmail req) clientIP w of
               ((allowed, Some err), w1) \<Rightarrow> (Inl (Status Internal ''failed to check rate limit''), w1)
             | ((allowed, None), w1) \<Rightarrow>
                 if \<not> allowed
                 then (Inl (Status ResourceExhausted
                              ''too many login attempts, please try again later''), w1)
                 else
                   (case FindOne (Users (db w1))
                           (\<lambda>u. Email u = ReqEmail req \<and> IsDeleted u = False) of
                      Inl err \<Rightarrow>
                        (case RecordLoginAttempt (ReqEmail req) clientIP False w1 of
                           (ignored, w2) \<Rightarrow>
                             if err = ErrNoDocuments
                             then (Inl (Status NotFound ''invalid email or password''), w2)
                             else (Inl (Status Internal ''failed to find user''), w2))
                    | Inr user \<Rightarrow>
                        if \<not> CheckPasswordHash lib (ReqPassword req) (Password user)
                        then
                          (case RecordLoginAttempt (ReqEmail req) clientIP False w1 of
                             (ignored, w2) \<Rightarrow>
                               (Inl (Status Unauthenticated ''invalid email or password''), w2))
                        else if \<not> IsActive user
                        then (Inl (Status PermissionDenied ''account is deactivated/deleted''), w1)
                        else
                          (case GenerateToken lib (jwtService s) (Hex lib (ID user)) (Email user) w1 of
                             (Inl err, w2) \<Rightarrow> (Inl (Status Internal ''failed to generate token''), w2)
                           | (Inr token, w2) \<Rightarrow>
                               (case RecordLoginAttempt (ReqEmail req) clientIP True w2 of
                                  (ignored, w3) \<Rightarrow>
                                    (Inr \<lparr>RespToken = token, RespUser = toProto lib user,
                                          RespMessage = ''Login success''\<rparr>, w3))))))"

definition Logout ::
  "Lib \<Rightarrow> AuthService \<Rightarrow> LogoutRequest \<Rightarrow> World \<Rightarrow> (Status + string) go \<times> World" where
  "Logout lib s req w =
     (if ReqToken req = [] then (Returns (Inl (Status InvalidArgument ''token is required'')), w)
      else
        (case ExtractUserIDFromToken lib (jwtService s) (ReqToken req) w of
           (Inl err, w1) \<Rightarrow> (Returns (Inl (Status Unauthenticated ''invalid token'')), w1)
         | (Inr userID, w1) \<Rightarrow>
             (case InvalidateToken lib (jwtService s) (ReqToken req) userID w1 of
                (Panics, w2) \<Rightarrow> (Panics, w2)
              | (Returns (Some err), w2) \<Rightarrow>
                  (Returns (Inl (Status Internal ''failed to invalidate token'')), w2)
              | (Returns None, w2) \<Rightarrow> (Returns (Inr ''Logout successful''), w2))))"

definition Register ::
  "Lib \<Rightarrow> AuthService \<Rightarrow> RegisterRequest \<Rightarrow> World \<Rightarrow> (Status + RegisterResponse) \<times> World" where
  "Register lib s req0 w =
     (let req = req0\<lparr>RegEmail := SanitizeString lib (RegEmail req0),
                     RegName := SanitizeString lib (RegName req0)\<rparr> in
      case ValidateEmail lib (RegEmail req) of
        Some err \<Rightarrow> (Inl (Status InvalidArgument (ValidationError_Error err)), w)
      | None \<Rightarrow>
      (case ValidatePassword lib (RegPassword req) of
        Some err \<Rightarrow> (Inl (Status InvalidArgument (ValidationError_Error err)), w)
      | None \<Rightarrow>
      (case ValidateName lib (RegName req) ''name'' of
        Some err \<Rightarrow> (Inl (Status InvalidArgument (ValidationError_Error err)), w)
      | None \<Rightarrow>
      (case FindOne (Users (db w)) (\<lambda>u. Email u = RegEmail req) of
        Inr existingUser \<Rightarrow> (Inl (Status AlreadyExists ''email already exists''), w)
      | Inl err \<Rightarrow>
          if err \<noteq> ErrNoDocuments then (Inl (Status Internal ''failed to check existing user''), w)
          else
            (case HashPassword lib (RegPassword req) of
               Inl err \<Rightarrow> (Inl (Status Internal ''failed to hash password''), w)
             | Inr hashedPassword \<Rightarrow>
                 (let (now, w1) = Now w;
                      user = \<lparr>ID = NilObjectID, Email = RegEmail req, Password = hashedPassword,
                              Name = RegName req, CreatedAt = now, UpdatedAt = now,
                              IsActive = True, IsDeleted = False\<rparr>;
                      (oid, w2) = NewObjectID w1
                  in case InsertOne bsonUser [Email] (Users (db w2)) (user\<lparr>ID := oid\<rparr>) of
                       Inl err \<Rightarrow> (Inl (Status Internal ''failed to create user''), w2)
                     | Inr c \<Rightarrow>
                         (Inr \<lparr>RegUser = toProto lib (user\<lparr>ID := oid\<rparr>),
                               RegMessage = ''Registration successful''\<rparr>,
                          w2\<lparr>db := (db w2)\<lparr>Users := c\<rparr>\<rparr>)))))))"

section \<open>Runs of the system\<close>

text \<open>
  One step of the system is a call of a handler or of a method of the token service, with
  any arguments, or a step of the environment: the profile handlers, which work on the
  users only, the database and the clock. The environment may change anything, with two
  limits: the clock does not go back, and an entry of the blacklist is only removed once
  its expiry has passed, which is what the index with a time to live on \<^verbatim>\<open>expires_at\<close>
  does.
\<close>

inductive step :: "Lib \<Rightarrow> AuthService \<Rightarrow> World \<Rightarrow> World \<Rightarrow> bool" for lib s where
  step_Login: "step lib s w (snd (Login lib s ctx req w))"
| step_Logout: "step lib s w (snd (Logout lib s lreq w))"
| step_Register: "step lib s w (snd (Register lib s rreq w))"
| step_GenerateToken: "step lib s w (snd (GenerateToken lib (jwtService s) userID email w))"
| step_ValidateToken: "step lib s w (snd (ValidateToken lib (jwtService s) t w))"
| step_InvalidateToken: "step lib s w (snd (InvalidateToken lib (jwtService s) t userID w))"
| step_environment:
    "clock w \<le> clock w' \<Longrightarrow>
     (\<forall>d \<in> set (docs (Tokens (db w))). clock w' < TokenExpiresAt d \<longrightarrow> d \<in> set (docs (Tokens (db w'))))
     \<Longrightarrow> step lib s w w'"

text \<open>
  \<open>grows\<close> is what every call of the program does to the clock and the blacklist, and
  \<open>keeps\<close> what every step does.
\<close>

definition grows :: "World \<Rightarrow> World \<Rightarrow> bool" where
  "grows w w' \<longleftrightarrow>
     clock w \<le> clock w' \<and> set (docs (Tokens (db w))) \<subseteq> set (docs (Tokens (db w')))"

definition keeps :: "World \<Rightarrow> World \<Rightarrow> bool" where
  "keeps w w' \<longleftrightarrow>
     clock w \<le> clock w' \<and>
     (\<forall>d \<in> set (docs (Tokens (db w))). clock w' < TokenExpiresAt d \<longrightarrow> d \<in> set (docs (Tokens (db w'))))"

section \<open>A small instance\<close>

text \<open>
  An instance of the packages and of the world, on which the theorems below are run. Its
  token codec knows two tokens signed with the key of the service: \<open>''tok''\<close>, which
  carries \<open>example_claims\<close> and is the one it signs, and \<open>''noexp''\<close>, which carries the
  same claims without an expiry. Its hash of a password is the password after
  \<open>''hash:''\<close>.
\<close>

definition example_oid :: ObjectID where
  "example_oid = [80, 127, 31, 119, 188, 248, 108, 215, 153, 67, 144, 17]"

definition example_hex :: string where
  "example_hex = ''507f1f77bcf86cd799439011''"

definition example_claims :: JWTClaims where
  "example_claims =
     \<lparr>UserID = example_hex, ClaimsEmail = ''a@x.com'',
      ExpiresAt = Some 1700086400000000000,
      IssuedAt = Some 1700000000000000000,
      NotBefore = Some 1700000000000000000,
      Subject = example_hex\<rparr>"

definition example_lib :: Lib where
  "example_lib =
     \<lparr>ParseUnverified =
        (\<lambda>t. if t = ''tok''
              then Inr \<lparr>Method = SigningMethodHMAC ''HS256'', Claims = example_claims, Valid = False\<rparr>
              else if t = ''noexp''
              then Inr \<lparr>Method = SigningMethodHMAC ''HS256'',
                        Claims = example_claims\<lparr>ExpiresAt := None\<rparr>, Valid = False\<rparr>
              else Inl jwt_ErrTokenMalformed),
      Verify = (\<lambda>m t k. (t = ''tok'' \<or> t = ''noexp'') \<and> k = ''ur-secret-key''),
      SignedString = (\<lambda>m k c. if c = example_claims then Inr ''tok'' else Inl ''key is invalid''),
      ObjectIDFromHex =
        (\<lambda>h. if h = example_hex then Inr example_oid
              else Inl ''the provided hex string is not a valid ObjectID''),
      Hex = (\<lambda>i. example_hex),
      CompareHashAndPassword = (\<lambda>h p. h = ''hash:'' @ p),
      GenerateFromPassword = (\<lambda>p. Inr (''hash:'' @ p)),
      ParseAddress = (\<lambda>a. CHR ''@'' \<in> set a),
      TrimSpace = (\<lambda>a. a),
      runes = map of_char,
      IsLetter = (\<lambda>r. (65 \<le> r \<and> r \<le> 90) \<or> (97 \<le> r \<and> r \<le> 122))\<rparr>"

definition example_service :: AuthService where
  "example_service = \<lparr>jwtService = NewJWTService ''ur-secret-key'' (24 * Hour)\<rparr>"

definition alice :: User where
  "alice =
     \<lparr>ID = example_oid, Email = ''a@x.com'', Password = ''hash:Str0ng!Pass'', Name = ''A'',
      CreatedAt = 1690000000000000000, UpdatedAt = 1690000000000000000,
      IsActive = True, IsDeleted = False\<rparr>"

definition bob :: User where
  "bob =
     \<lparr>ID = [1, 2, 3, 4, 5, 6, 7, 8, 9, 10, 11, 12], Email = ''b@x.com'',
      Password = ''hash:An0ther!Pass'', Name = ''B'',
      CreatedAt = 1690000000000000000, UpdatedAt = 1695000000000000000,
      IsActive = False, IsDeleted = True\<rparr>"

definition failure :: "time \<Rightarrow> LoginAttempt" where
  "failure ts =
     \<lparr>AttemptID = NilObjectID, AttemptEmail = ''a@x.com'', IPAddress = ''unknown'',
      Timestamp = ts, Success = False\<rparr>"

definition example_world :: World where
  "example_world =
     \<lparr>db = \<lparr>Users = \<lparr>docs = [alice, bob], read_fault = None, write_fault = None\<rparr>,
            Tokens = \<lparr>docs = [], read_fault = None, write_fault = None\<rparr>,
            Attempts = \<lparr>docs = [], read_fault = None, write_fault = None\<rparr>\<rparr>,
      clock = 1700000000000000250,
      ticks = [10, 10, 10, 10, 10, 10, 10, 10],
      oids = [[7, 7, 7, 7, 7, 7, 7, 7, 7, 7, 7, 7]]\<rparr>"

text \<open>The same world after five failed logins of \<open>a@x.com\<close> in the last minute.\<close>

definition throttled_world :: World where
  "throttled_world =
     example_world\<lparr>db := (db example_world)
       \<lparr>Attempts := \<lparr>docs = map failure
                        [1699999990000000000, 1699999991000000000, 1699999992000000000,
                         1699999993000000000, 1699999994000000000],
                     read_fault = None, write_fault = None\<rparr>\<rparr>\<rparr>"

text \<open>
  The example world half a millisecond later than one minute after five failed logins of
  \<open>a@x.com\<close>, all of the same millisecond.
\<close>

definition late_world :: World where
  "late_world =
     example_world\<lparr>db := (db example_world)
       \<lparr>Attempts := \<lparr>docs = [failure 1699999940000000000, failure 1699999940000000000,
                             failure 1699999940000000000, failure 1699999940000000000,
                             failure 1699999940000000000],
                     read_fault = None, write_fault = None\<rparr>\<rparr>,
       clock := 1700000000000499990\<rparr>"

text \<open>
  The example world with the account of \<open>a@x.com\<close> deactivated, and the example world
  five seconds later, when the claims of a new token are claims the codec does not sign.
\<close>

definition dormant_world :: World where
  "dormant_world =
     example_world\<lparr>db := (db example_world)
       \<lparr>Users := \<lparr>docs = [alice\<lparr>IsActive := False\<rparr>, bob],
                  read_fault = None, write_fault = None\<rparr>\<rparr>\<rparr>"

definition later_world :: World where
  "later_world = example_world\<lparr>clock := 1700000005000000000\<rparr>"

text \<open>The same world while reads of the blacklist time out.\<close>

definition outage_world :: World where
  "outage_world =
     example_world\<lparr>db := (db example_world)
       \<lparr>Tokens := \<lparr>docs = [], read_fault = Some ''context deadline exceeded'',
                   write_fault = None\<rparr>\<rparr>\<rparr>"

text \<open>The example world after the token \<open>''tok''\<close> has been invalidated.\<close>

definition revoked_world :: World where
  "revoked_world =
     snd (InvalidateToken example_lib (jwtService example_service) ''tok'' example_hex example_world)"

text \<open>
  The same world with a blacklist entry for a string that is not a token of the codec,
  and the same world while writes to the blacklist are refused.
\<close>

definition stale_world :: World where
  "stale_world =
     example_world\<lparr>db := (db example_world)
       \<lparr>Tokens := \<lparr>docs = [\<lparr>TokenID = NilObjectID, Token = ''forged'', TokenUserID = example_oid,
                             TokenExpiresAt = 1700086400000000000,
                             TokenCreatedAt = 1700000000000000000\<rparr>],
                   read_fault = None, write_fault = None\<rparr>\<rparr>\<rparr>"

definition readonly_world :: World where
  "readonly_world =
     example_world\<lparr>db := (db example_world)
       \<lparr>Tokens := \<lparr>docs = [], read_fault = None, write_fault = Some ''not primary''\<rparr>\<rparr>\<rparr>"

text \<open>The example world after a token has been issued to \<open>a@x.com\<close>.\<close>

definition issued_world :: World where
  "issued_world =
     snd (GenerateToken example_lib (jwtService example_service) example_hex ''a@x.com'' example_world)"

definition success_now :: LoginAttempt where
  "success_now =
     \<lparr>AttemptID = NilObjectID, AttemptEmail = ''a@x.com'', IPAddress = ''unknown'',
      Timestamp = 1700000000000000000, Success = True\<rparr>"

definition alice_login :: LoginRequest where
  "alice_login = \<lparr>ReqEmail = ''a@x.com'', ReqPassword = ''Str0ng!Pass''\<rparr>"

definition empty_login :: LoginRequest where
  "empty_login = \<lparr>ReqEmail = ''a@x.com'', ReqPassword = ''''\<rparr>"

definition nobody_login :: LoginRequest where
  "nobody_login = \<lparr>ReqEmail = ''nobody@x.com'', ReqPassword = ''Str0ng!Pass''\<rparr>"

definition wrong_login :: LoginRequest where
  "wrong_login = \<lparr>ReqEmail = ''a@x.com'', ReqPassword = ''Wr0ng!Pass''\<rparr>"

definition bob_login :: LoginRequest where
  "bob_login = \<lparr>ReqEmail = ''b@x.com'', ReqPassword = ''An0ther!Pass''\<rparr>"

definition bob_again :: RegisterRequest where
  "bob_again = \<lparr>RegEmail = ''b@x.com'', RegPassword = ''Str0ng!Pass'', RegName = ''B''\<rparr>"

section \<open>The attempt a login leaves behind\<close>

text \<open>
  \<open>attempt_of req ctx ok a\<close>: the attempt \<open>a\<close> is for the identity and the origin of the
  request, with the flag \<open>ok\<close>. \<open>appends w w' new\<close>: from \<open>w\<close> to \<open>w'\<close> the attempts \<open>new\<close>
  were appended to the store of the attempts, and nothing else happened to it.
\<close>

definition attempt_of :: "LoginRequest \<Rightarrow> metadata \<Rightarrow> bool \<Rightarrow> LoginAttempt \<Rightarrow> bool" where
  "attempt_of req ctx ok a \<longleftrightarrow>
     AttemptEmail a = ReqEmail req \<and> IPAddress a = getClientIP ctx \<and> Success a = ok"

definition appends :: "World \<Rightarrow> World \<Rightarrow> LoginAttempt list \<Rightarrow> bool" where
  "appends w w' new \<longleftrightarrow> docs (Attempts (db w')) = docs (Attempts (db w)) @ new"

section \<open>What a call does to the world\<close>

lemma bsonDate_le: "bsonDate t \<le> t"
  by (simp add: bsonDate_def Millisecond_def)

lemma bsonDate_gt: "t - Millisecond < bsonDate t"
  by (simp add: bsonDate_def Millisecond_def)

lemma bsonDate_NewNumericDate: "bsonDate (NewNumericDate t) = NewNumericDate t"
proof -
  have "(1000000000::int) dvd t - t mod 1000000000"
    by (rule dvd_minus_mod)
  moreover have "(1000000::int) dvd 1000000000"
    by simp
  ultimately have "(1000000::int) dvd t - t mod 1000000000"
    by (rule dvd_trans [rotated])
  then have "(t - t mod 1000000000) mod 1000000 = 0"
    by (simp add: mod_eq_0_iff_dvd)
  then show ?thesis
    by (simp add: bsonDate_def NewNumericDate_def Millisecond_def Second_def)
qed

lemma bsonToken_fields:
  "TokenID (bsonToken d) = TokenID d" "Token (bsonToken d) = Token d"
  "TokenUserID (bsonToken d) = TokenUserID d"
  "TokenExpiresAt (bsonToken d) = bsonDate (TokenExpiresAt d)"
  "TokenCreatedAt (bsonToken d) = bsonDate (TokenCreatedAt d)"
  by (simp_all add: bsonToken_def)

lemma bsonAttempt_fields:
  "AttemptID (bsonAttempt a) = AttemptID a" "AttemptEmail (bsonAttempt a) = AttemptEmail a"
  "IPAddress (bsonAttempt a) = IPAddress a" "Success (bsonAttempt a) = Success a"
  "Timestamp (bsonAttempt a) = bsonDate (Timestamp a)"
  by (simp_all add: bsonAttempt_def)

lemma grows_refl: "grows w w"
  by (simp add: grows_def)

lemma grows_trans: "grows a b \<Longrightarrow> grows b c \<Longrightarrow> grows a c"
  by (auto simp: grows_def)

lemma Now_grows: "grows w (snd (Now w))"
  by (simp add: grows_def Now_def split: list.splits)

lemma Now_db: "db (snd (Now w)) = db w"
  by (simp add: Now_def split: list.splits)

lemma Now_clock: "clock (snd (Now w)) = fst (Now w)"
  by (simp add: Now_def split: list.splits)

lemma Now_mono: "clock w \<le> fst (Now w)"
  by (simp add: Now_def split: list.splits)

lemma NewObjectID_grows: "grows w (snd (NewObjectID w))"
  by (simp add: grows_def NewObjectID_def split: list.splits)

lemma NewObjectID_db: "db (snd (NewObjectID w)) = db w"
  by (simp add: NewObjectID_def split: list.splits)

lemma ParseWithClaims_grows: "grows w (snd (ParseWithClaims lib t kf w))"
  using Now_grows [of w]
  by (auto simp: ParseWithClaims_def grows_refl Let_def split: sum.splits prod.splits)

lemma ParseWithClaims_db: "db (snd (ParseWithClaims lib t kf w)) = db w"
  using Now_db [of w]
  by (auto simp: ParseWithClaims_def Let_def split: sum.splits prod.splits)

lemma GenerateToken_grows: "grows w (snd (GenerateToken lib j u e w))"
proof -
  have "grows w (snd (Now (snd (Now (snd (Now w))))))"
    by (blast intro: grows_trans Now_grows)
  then show ?thesis
    by (simp add: GenerateToken_def Let_def split_beta)
qed

lemma GenerateToken_db: "db (snd (GenerateToken lib j u e w)) = db w"
  by (simp add: GenerateToken_def Let_def split_beta Now_db)

lemma ValidateToken_grows: "grows w (snd (ValidateToken lib j t w))"
  by (simp add: ValidateToken_def split_beta grows_refl ParseWithClaims_grows split: sum.splits)

lemma ValidateToken_db: "db (snd (ValidateToken lib j t w)) = db w"
  by (simp add: ValidateToken_def split_beta ParseWithClaims_db split: sum.splits)

lemma ExtractUserIDFromToken_snd:
  "snd (ExtractUserIDFromToken lib j t w) = snd (ValidateToken lib j t w)"
  by (simp add: ExtractUserIDFromToken_def split_beta split: sum.splits)

lemma InsertOne_docs: "InsertOne bson uniq c d = Inr c' \<Longrightarrow> docs c' = docs c @ [bson d]"
  by (auto simp: InsertOne_def split: option.splits if_splits)

lemma InvalidateToken_grows: "grows w (snd (InvalidateToken lib j t u w))"
proof -
  let ?w1 = "snd (ParseWithClaims lib t (\<lambda>token. Inr (secretKey j)) w)"
  have a: "grows w ?w1" by (rule ParseWithClaims_grows)
  have b: "grows w (snd (Now ?w1))" by (blast intro: grows_trans a Now_grows)
  have c: "\<And>x. grows w x \<Longrightarrow> grows w (snd (NewObjectID (snd (Now x))))"
    by (blast intro: grows_trans Now_grows NewObjectID_grows)
  have d: "\<And>x c. grows w x \<Longrightarrow> InsertOne bsonToken [Token] (Tokens (db x)) y = Inr c
      \<Longrightarrow> grows w (x\<lparr>db := (db x)\<lparr>Tokens := c\<rparr>\<rparr>)" for y
    by (auto simp: grows_def dest!: InsertOne_docs)
  show ?thesis
    using a b c d
    by (simp add: InvalidateToken_def split_beta Let_def split: sum.splits option.splits)
qed

lemma RecordLoginAttempt_grows: "grows w (snd (RecordLoginAttempt e ip b w))"
proof -
  have a: "grows w (snd (NewObjectID (snd (Now w))))"
    by (blast intro: grows_trans Now_grows NewObjectID_grows)
  have b: "\<And>x c. grows w x \<Longrightarrow> grows w (x\<lparr>db := (db x)\<lparr>Attempts := c\<rparr>\<rparr>)"
    by (simp add: grows_def)
  show ?thesis
    using a b
    by (simp add: RecordLoginAttempt_def split_beta Let_def split: sum.splits)
qed

lemma CheckRateLimit_snd: "snd (CheckRateLimit e ip w) = snd (Now w)"
  by (simp add: CheckRateLimit_def split_beta Let_def split: sum.splits)

lemma CheckRateLimit_grows: "grows w (snd (CheckRateLimit e ip w))"
  by (simp add: CheckRateLimit_snd Now_grows)

lemma Login_grows: "grows w (snd (Login lib s ctx req w))"
proof -
  let ?w1 = "snd (CheckRateLimit (ReqEmail req) (getClientIP ctx) w)"
  have a: "grows w ?w1" by (rule CheckRateLimit_grows)
  have b: "\<And>b. grows w (snd (RecordLoginAttempt (ReqEmail req) (getClientIP ctx) b ?w1))"
    by (blast intro: grows_trans a RecordLoginAttempt_grows)
  have c: "\<And>u e. grows w (snd (GenerateToken lib (jwtService s) u e ?w1))"
    by (blast intro: grows_trans a GenerateToken_grows)
  have d: "\<And>u e b. grows w (snd (RecordLoginAttempt (ReqEmail req) (getClientIP ctx) b
              (snd (GenerateToken lib (jwtService s) u e ?w1))))"
    by (blast intro: grows_trans c RecordLoginAttempt_grows)
  show ?thesis
    using a b c d
    by (simp add: Login_def split_beta Let_def grows_refl split: sum.splits option.splits)
qed

lemma Logout_grows: "grows w (snd (Logout lib s req w))"
proof -
  let ?w1 = "snd (ValidateToken lib (jwtService s) (ReqToken req) w)"
  have a: "grows w ?w1" by (rule ValidateToken_grows)
  have b: "\<And>u. grows w (snd (InvalidateToken lib (jwtService s) (ReqToken req) u ?w1))"
    by (blast intro: grows_trans a InvalidateToken_grows)
  show ?thesis
    using a b
    by (simp add: Logout_def split_beta grows_refl ExtractUserIDFromToken_snd
             split: sum.splits option.splits go.splits)
qed

lemma Register_grows: "grows w (snd (Register lib s req w))"
proof -
  have a: "grows w (snd (NewObjectID (snd (Now w))))"
    by (blast intro: grows_trans Now_grows NewObjectID_grows)
  have b: "\<And>x c. grows w x \<Longrightarrow> grows w (x\<lparr>db := (db x)\<lparr>Users := c\<rparr>\<rparr>)"
    by (simp add: grows_def)
  show ?thesis
    using a b
    by (simp add: Register_def split_beta Let_def grows_refl split: sum.splits option.splits)
qed

lemma grows_keeps: "grows w w' \<Longrightarrow> keeps w w'"
  by (auto simp: grows_def keeps_def)

lemma keeps_refl: "keeps w w"
  by (simp add: keeps_def)

lemma keeps_trans: "keeps a b \<Longrightarrow> keeps b c \<Longrightarrow> keeps a c"
  unfolding keeps_def by (metis (no_types, lifting) le_less_trans order_trans)

lemma step_keeps: "step lib s w w' \<Longrightarrow> keeps w w'"
proof (induction rule: step.induct)
  case (step_environment w w')
  then show ?case by (simp add: keeps_def)
qed (simp_all add: grows_keeps Login_grows Logout_grows Register_grows GenerateToken_grows
       ValidateToken_grows InvalidateToken_grows)

lemma steps_keeps: "(step lib s)\<^sup>*\<^sup>* w w' \<Longrightarrow> keeps w w'"
proof (induction rule: rtranclp_induct)
  case base
  show ?case by (rule keeps_refl)
next
  case (step y z)
  then show ?case by (blast intro: keeps_trans step_keeps)
qed

lemma CheckRateLimit_db: "db (snd (CheckRateLimit e ip w)) = db w"
  by (simp add: CheckRateLimit_snd Now_db)

lemma CheckRateLimit_Users:
  "fst (CheckRateLimit e ip (w\<lparr>db := (db w)\<lparr>Users := us\<rparr>\<rparr>)) = fst (CheckRateLimit e ip w)"
  by (simp add: CheckRateLimit_def CountDocuments_def Now_def Let_def split_beta
           split: list.splits option.splits)

section \<open>Evaluating the instance\<close>

lemmas example_defs = example_lib_def example_service_def example_world_def example_claims_def
  example_hex_def example_oid_def NewJWTService_def alice_def bob_def failure_def
  throttled_world_def outage_world_def late_world_def dormant_world_def later_world_def
  Hour_def Minute_def Second_def Millisecond_def NilObjectID_def

lemmas request_defs = alice_login_def empty_login_def nobody_login_def wrong_login_def
  bob_login_def bob_again_def

lemmas service_defs = InvalidateToken_def ValidateToken_def ExtractUserIDFromToken_def
  GenerateToken_def ParseWithClaims_def Validate_def NewNumericDate_def Now_def NewObjectID_def
  InsertOne_def FindOne_def CountDocuments_def CheckRateLimit_def RecordLoginAttempt_def
  Login_def Logout_def Register_def getClientIP_def toProto_def ValidateEmail_def
  ValidatePassword_def ValidateName_def HashPassword_def CheckPasswordHash_def SanitizeString_def
  ValidationError_Error_def hasMinLen_def hasUpper_def hasLower_def hasNumber_def hasSpecial_def
  MinPasswordLength_def MaxPasswordLength_def MaxNameLength_def MaxEmailLength_def
  bsonDate_def bsonUser_def bsonToken_def bsonAttempt_def

lemma revoked_world_eq:
  "revoked_world =
     example_world
       \<lparr>db := (db example_world)
          \<lparr>Tokens := \<lparr>docs = [\<lparr>TokenID = [7, 7, 7, 7, 7, 7, 7, 7, 7, 7, 7, 7], Token = ''tok'',
                                TokenUserID = example_oid, TokenExpiresAt = 1700086400000000000,
                                TokenCreatedAt = 1700000000000000000\<rparr>],
                      read_fault = None, write_fault = None\<rparr>\<rparr>,
        clock := 1700000000000000270, ticks := [10, 10, 10, 10, 10, 10], oids := []\<rparr>"
  by (simp add: revoked_world_def service_defs example_defs Let_def)

lemma issued_world_eq:
  "issued_world = example_world\<lparr>clock := 1700000000000000280, ticks := [10, 10, 10, 10, 10]\<rparr>"
  by (simp add: issued_world_def service_defs example_defs Let_def)

lemma example_codec:
  "\<forall>c tk. SignedString example_lib (SigningMethodHMAC ''HS256'')
              (secretKey (jwtService example_service)) c = Inr tk \<longrightarrow>
           (\<exists>token. ParseUnverified example_lib tk = Inr token
              \<and> Method token = SigningMethodHMAC ''HS256'' \<and> Claims token = c
              \<and> Verify example_lib (SigningMethodHMAC ''HS256'') tk
                   (secretKey (jwtService example_service)))"
  by (simp add: example_lib_def example_service_def NewJWTService_def)

lemma example_parse:
  "ParseWithClaims example_lib ''tok'' (\<lambda>token. Inr (secretKey (jwtService example_service))) w
     = (if fst (Now w) < 1700086400000000000 \<and> \<not> fst (Now w) < 1700000000000000000
        then Inr \<lparr>Method = SigningMethodHMAC ''HS256'', Claims = example_claims, Valid = True\<rparr>
        else Inl (jwt_ErrTokenInvalidClaims # Validate (fst (Now w)) example_claims),
        snd (Now w))"
  by (simp add: ParseWithClaims_def Validate_def example_lib_def example_service_def
        NewJWTService_def example_claims_def Let_def split_beta)

lemma example_parse_garbage:
  "ParseWithClaims example_lib ''garbage'' kf w = (Inl [jwt_ErrTokenMalformed], w)"
  by (simp add: ParseWithClaims_def example_lib_def)

section \<open>The blacklist\<close>

lemma FindOne_found:
  assumes "read_fault c = None" and "d \<in> set (docs c)" and "flt d"
  shows "\<exists>d'. FindOne c flt = Inr d'"
proof -
  from assms(2,3) have "find flt (docs c) \<noteq> None"
    by (auto simp: find_None_iff)
  with assms(1) show ?thesis
    by (auto simp: FindOne_def)
qed

lemma FindOne_missing:
  assumes "read_fault c = None" and "\<forall>d \<in> set (docs c). \<not> flt d"
  shows "FindOne c flt = Inl ErrNoDocuments"
proof -
  from assms(2) have "find flt (docs c) = None"
    by (auto simp: find_None_iff)
  with assms(1) show ?thesis
    by (simp add: FindOne_def)
qed

lemma ValidateToken_blacklisted:
  assumes "read_fault (Tokens (db w)) = None"
    and "d \<in> set (docs (Tokens (db w)))" and "Token d = t"
  shows "ValidateToken lib j t w = (Inl ErrTokenBlacklisted, w)"
proof -
  from assms obtain d' where "FindOne (Tokens (db w)) (\<lambda>d. Token d = t) = Inr d'"
    using FindOne_found [of "Tokens (db w)" d "\<lambda>d. Token d = t"] by blast
  then show ?thesis
    by (simp add: ValidateToken_def)
qed

lemma InvalidateToken_inserted:
  assumes "InvalidateToken lib j t u w = (Returns None, w1)"
  shows "\<exists>d. docs (Tokens (db w1)) = docs (Tokens (db w)) @ [d] \<and> Token d = t"
  using assms
  by (auto simp: InvalidateToken_def split_beta Let_def Now_db NewObjectID_db ParseWithClaims_db
             bsonToken_fields
           split: sum.splits option.splits dest!: InsertOne_docs)

text \<open>
  C1. After \<open>InvalidateToken\<close> has succeeded for a token \<open>t\<close>, the record it inserted is a
  record for \<open>t\<close>, and \<open>ValidateToken t\<close> returns \<open>ErrTokenBlacklisted\<close> at every later
  moment at which that record has not reached its expiry and the lookup itself does not
  fail: whatever calls and steps of the environment came in between, whatever the
  packages say about the signature of \<open>t\<close>, and whatever the expiry of \<open>t\<close>.
\<close>

theorem revocation_permanent:
  assumes "InvalidateToken lib (jwtService s) t u w = (Returns None, w1)"
    and "(step lib s)\<^sup>*\<^sup>* w1 w2"
    and "clock w2 < TokenExpiresAt (last (docs (Tokens (db w1))))"
    and "read_fault (Tokens (db w2)) = None"
  shows "Token (last (docs (Tokens (db w1)))) = t
    \<and> ValidateToken lib (jwtService s) t w2 = (Inl ErrTokenBlacklisted, w2)"
proof -
  from assms(1) obtain d
    where d: "docs (Tokens (db w1)) = docs (Tokens (db w)) @ [d]" "Token d = t"
    using InvalidateToken_inserted by blast
  then have last: "last (docs (Tokens (db w1))) = d" and mem: "d \<in> set (docs (Tokens (db w1)))"
    by simp_all
  from assms(2) have "keeps w1 w2" by (rule steps_keeps)
  with mem assms(3) last have "d \<in> set (docs (Tokens (db w2)))"
    by (simp add: keeps_def)
  with assms(4) d(2) last show ?thesis
    by (simp add: ValidateToken_blacklisted)
qed

theorem revocation_permanent_witness:
  "InvalidateToken example_lib (jwtService example_service) ''tok'' example_hex example_world
     = (Returns None, revoked_world)
   \<and> ValidateToken example_lib (jwtService example_service) ''tok''
        (snd (Login example_lib example_service None alice_login revoked_world))
     = (Inl ErrTokenBlacklisted,
        snd (Login example_lib example_service None alice_login revoked_world))"
proof -
  let ?w2 = "snd (Login example_lib example_service None alice_login revoked_world)"
  have a: "InvalidateToken example_lib (jwtService example_service) ''tok'' example_hex example_world
     = (Returns None, revoked_world)"
    unfolding revoked_world_eq by (simp add: service_defs example_defs Let_def)
  have b: "(step example_lib example_service)\<^sup>*\<^sup>* revoked_world ?w2"
    by (rule r_into_rtranclp) (rule step_Login)
  have c: "clock ?w2 < TokenExpiresAt (last (docs (Tokens (db revoked_world))))"
    unfolding revoked_world_eq by (simp add: service_defs example_defs request_defs Let_def)
  have d: "read_fault (Tokens (db ?w2)) = None"
    unfolding revoked_world_eq by (simp add: service_defs example_defs request_defs Let_def)
  from revocation_permanent [OF a b c d] a show ?thesis by simp
qed

section \<open>Issuing and validating\<close>

lemma NewNumericDate_le: "NewNumericDate x \<le> x"
  by (simp add: NewNumericDate_def Second_def)

lemma GenerateToken_signed:
  assumes "GenerateToken lib j uid email w = (Inr t, w1)"
  shows "\<exists>c. SignedString lib (SigningMethodHMAC ''HS256'') (secretKey j) c = Inr t
           \<and> UserID c = uid \<and> Subject c = uid
           \<and> ExpiresAt c = Some (NewNumericDate (fst (Now w) + tokenTTL j))
           \<and> (\<exists>n. NotBefore c = Some n \<and> n \<le> clock w1)"
proof -
  let ?w2 = "snd (Now (snd (Now w)))"
  have "NewNumericDate (fst (Now ?w2)) \<le> clock (snd (Now ?w2))"
    by (simp add: Now_clock NewNumericDate_le)
  then show ?thesis
    using assms by (auto simp: GenerateToken_def Let_def split_beta)
qed

text \<open>
  C2. Let \<open>GenerateToken\<close> return the token \<open>t\<close> for the identity \<open>uid\<close>, and let the
  codec give back the claims it signed and accept its own signature. Then, at any later
  moment at which the blacklist can be read and holds no record for \<open>t\<close>, and at which
  the clock is before the expiry that \<open>GenerateToken\<close> gave the token, \<open>ValidateToken t\<close>
  succeeds with claims whose subject and user identifier are \<open>uid\<close>.
\<close>

theorem issue_validate_roundtrip:
  assumes "GenerateToken lib (jwtService s) uid label w = (Inr t, w1)"
    and "\<forall>c tk. SignedString lib (SigningMethodHMAC ''HS256'') (secretKey (jwtService s)) c = Inr tk \<longrightarrow>
           (\<exists>token. ParseUnverified lib tk = Inr token
              \<and> Method token = SigningMethodHMAC ''HS256'' \<and> Claims token = c
              \<and> Verify lib (SigningMethodHMAC ''HS256'') tk (secretKey (jwtService s)))"
    and "(step lib s)\<^sup>*\<^sup>* w1 w2"
    and "read_fault (Tokens (db w2)) = None"
    and "\<forall>d \<in> set (docs (Tokens (db w2))). Token d \<noteq> t"
    and "fst (Now w2) < NewNumericDate (fst (Now w) + tokenTTL (jwtService s))"
  shows "\<exists>claims. fst (ValidateToken lib (jwtService s) t w2) = Inr claims
           \<and> Subject claims = uid \<and> UserID claims = uid"
proof -
  let ?j = "jwtService s"
  from GenerateToken_signed [OF assms(1)] obtain c n where
    c: "SignedString lib (SigningMethodHMAC ''HS256'') (secretKey ?j) c = Inr t"
      "UserID c = uid" "Subject c = uid"
      "ExpiresAt c = Some (NewNumericDate (fst (Now w) + tokenTTL ?j))"
      "NotBefore c = Some n" "n \<le> clock w1"
    by blast
  from assms(2) c(1) obtain token where
    tok: "ParseUnverified lib t = Inr token" "Method token = SigningMethodHMAC ''HS256''"
      "Claims token = c" "Verify lib (SigningMethodHMAC ''HS256'') t (secretKey ?j)"
    by blast
  from assms(3) have "keeps w1 w2" by (rule steps_keeps)
  then have "clock w1 \<le> fst (Now w2)"
    using Now_mono [of w2] by (simp add: keeps_def)
  with c(6) have nbf: "\<not> fst (Now w2) < n" by simp
  have valid: "Validate (fst (Now w2)) c = []"
    using c(4,5) assms(6) nbf by (simp add: Validate_def)
  have lookup: "FindOne (Tokens (db w2)) (\<lambda>d. Token d = t) = Inl ErrNoDocuments"
    using assms(4,5) by (intro FindOne_missing) auto
  have "fst (ValidateToken lib ?j t w2) = Inr c"
    using lookup tok valid
    by (simp add: ValidateToken_def ParseWithClaims_def Let_def split_beta)
  with c(2,3) show ?thesis by simp
qed

theorem issue_validate_roundtrip_witness:
  "GenerateToken example_lib (jwtService example_service) example_hex ''a@x.com'' example_world
     = (Inr ''tok'', issued_world)
   \<and> (\<exists>claims. fst (ValidateToken example_lib (jwtService example_service) ''tok''
                      (snd (Login example_lib example_service None alice_login issued_world)))
                 = Inr claims
               \<and> Subject claims = example_hex \<and> UserID claims = example_hex)"
proof -
  let ?w2 = "snd (Login example_lib example_service None alice_login issued_world)"
  have a: "GenerateToken example_lib (jwtService example_service) example_hex ''a@x.com''
             example_world = (Inr ''tok'', issued_world)"
    unfolding issued_world_eq by (simp add: service_defs example_defs Let_def)
  have b: "(step example_lib example_service)\<^sup>*\<^sup>* issued_world ?w2"
    by (rule r_into_rtranclp) (rule step_Login)
  have c: "read_fault (Tokens (db ?w2)) = None"
    unfolding issued_world_eq by (simp add: service_defs example_defs alice_login_def Let_def)
  have d: "\<forall>d \<in> set (docs (Tokens (db ?w2))). Token d \<noteq> ''tok''"
    unfolding issued_world_eq by (simp add: service_defs example_defs alice_login_def Let_def)
  have e: "fst (Now ?w2) < NewNumericDate (fst (Now example_world)
             + tokenTTL (jwtService example_service))"
    unfolding issued_world_eq by (simp add: service_defs example_defs alice_login_def Let_def)
  from issue_validate_roundtrip [OF a example_codec b c d e] a show ?thesis by simp
qed

text \<open>
  C3. The lookup in the blacklist comes first: when the blacklist can be read and holds a
  record for the exact string \<open>t\<close>, \<open>ValidateToken t\<close> returns \<open>ErrTokenBlacklisted\<close> and
  leaves the world as it was, the clock unread, so the token was never parsed. The
  result is the same for every behaviour of the packages and for every key: it does not
  depend on whether \<open>t\<close> decodes, on its signature or on its expiry.
\<close>

theorem blacklist_checked_first:
  assumes "read_fault (Tokens (db w)) = None"
    and "d \<in> set (docs (Tokens (db w)))" and "Token d = t"
  shows "ValidateToken lib j t w = (Inl ErrTokenBlacklisted, w)
    \<and> (\<forall>lib' j'. ValidateToken lib' j' t w = ValidateToken lib j t w)"
  using assms by (simp add: ValidateToken_blacklisted)

theorem blacklist_checked_first_witness:
  "ValidateToken example_lib (jwtService example_service) ''forged'' example_world
     = (Inl ErrInvalidToken, example_world)
   \<and> ValidateToken example_lib (jwtService example_service) ''forged'' stale_world
     = (Inl ErrTokenBlacklisted, stale_world)"
proof -
  have a: "read_fault (Tokens (db stale_world)) = None"
    by (simp add: stale_world_def example_defs)
  have b: "\<lparr>TokenID = NilObjectID, Token = ''forged'', TokenUserID = example_oid,
            TokenExpiresAt = 1700086400000000000, TokenCreatedAt = 1700000000000000000\<rparr>
           \<in> set (docs (Tokens (db stale_world)))"
    by (simp add: stale_world_def example_defs)
  have c: "ValidateToken example_lib (jwtService example_service) ''forged'' example_world
     = (Inl ErrInvalidToken, example_world)"
    by (simp add: service_defs example_defs)
  from blacklist_checked_first [OF a b, of "''forged''" example_lib "jwtService example_service"] c
  show ?thesis by simp
qed

section \<open>The rate limit\<close>

lemma length_filter_mono:
  "(\<And>x. x \<in> set xs \<Longrightarrow> P x \<Longrightarrow> Q x) \<Longrightarrow> length (filter P xs) \<le> length (filter Q xs)"
  by (induction xs) auto

text \<open>
  C4, as the code has it. When the attempts can be read, \<open>CheckRateLimit\<close> allows the
  login exactly when fewer than five attempts of the store have this identity and this
  origin, are failures, and are dated no earlier than the instant sixty seconds before
  the clock reading of the call, cut down to the millisecond as the store compares it. So
  every failure at most sixty seconds old counts, and none that is a millisecond or more
  older than sixty seconds does. The call leaves the database as it was. Attempts that
  succeeded, and attempts that old, do not count: adding any number of them to the store
  does not change the answer.
\<close>

theorem CheckRateLimit_counts:
  assumes "read_fault (Attempts (db w)) = None"
  shows "fst (CheckRateLimit email ip w) =
           (length (filter (\<lambda>a. AttemptEmail a = email \<and> IPAddress a = ip \<and> \<not> Success a
                                 \<and> bsonDate (fst (Now w) - 60 * Second) \<le> Timestamp a)
                      (docs (Attempts (db w)))) < 5, None)
    \<and> length (filter (\<lambda>a. AttemptEmail a = email \<and> IPAddress a = ip \<and> \<not> Success a
                           \<and> fst (Now w) - Timestamp a \<le> 60 * Second)
                (docs (Attempts (db w))))
        \<le> length (filter (\<lambda>a. AttemptEmail a = email \<and> IPAddress a = ip \<and> \<not> Success a
                                 \<and> bsonDate (fst (Now w) - 60 * Second) \<le> Timestamp a)
                      (docs (Attempts (db w))))
    \<and> length (filter (\<lambda>a. AttemptEmail a = email \<and> IPAddress a = ip \<and> \<not> Success a
                                 \<and> bsonDate (fst (Now w) - 60 * Second) \<le> Timestamp a)
                      (docs (Attempts (db w))))
        \<le> length (filter (\<lambda>a. AttemptEmail a = email \<and> IPAddress a = ip \<and> \<not> Success a
                           \<and> fst (Now w) - Timestamp a < 60 * Second + Millisecond)
                (docs (Attempts (db w))))
    \<and> db (snd (CheckRateLimit email ip w)) = db w
    \<and> (\<forall>others. (\<forall>a \<in> set others.
                      Success a \<or> 60 * Second + Millisecond \<le> fst (Now w) - Timestamp a) \<longrightarrow>
          fst (CheckRateLimit email ip
                 (w\<lparr>db := (db w)\<lparr>Attempts := (Attempts (db w))
                        \<lparr>docs := docs (Attempts (db w)) @ others\<rparr>\<rparr>\<rparr>))
          = fst (CheckRateLimit email ip w))"
proof -
  let ?p = "\<lambda>now a. AttemptEmail a = email \<and> IPAddress a = ip \<and> Success a = False
                \<and> bsonDate (now + (- 1) * Minute) \<le> Timestamp a"
  let ?q = "\<lambda>a. AttemptEmail a = email \<and> IPAddress a = ip \<and> \<not> Success a
                \<and> bsonDate (fst (Now w) - 60 * Second) \<le> Timestamp a"
  have p: "?p (fst (Now w)) = ?q"
    by (auto simp: Minute_def fun_eq_iff)
  have eq: "fst (CheckRateLimit email ip x) =
              (length (filter (?p (fst (Now x))) (docs (Attempts (db x)))) < 5, None)"
    if "read_fault (Attempts (db x)) = None" for x
    using that by (simp add: CheckRateLimit_def CountDocuments_def Let_def split_beta Now_db)
  have first: "fst (CheckRateLimit email ip w) = (length (filter ?q (docs (Attempts (db w)))) < 5, None)"
    using eq [OF assms] by (simp only: p)
  have lower: "length (filter (\<lambda>a. AttemptEmail a = email \<and> IPAddress a = ip \<and> \<not> Success a
                           \<and> fst (Now w) - Timestamp a \<le> 60 * Second)
                (docs (Attempts (db w)))) \<le> length (filter ?q (docs (Attempts (db w))))"
    using bsonDate_le [of "fst (Now w) - 60 * Second"]
    by (intro length_filter_mono) auto
  have upper: "length (filter ?q (docs (Attempts (db w))))
        \<le> length (filter (\<lambda>a. AttemptEmail a = email \<and> IPAddress a = ip \<and> \<not> Success a
                           \<and> fst (Now w) - Timestamp a < 60 * Second + Millisecond)
                (docs (Attempts (db w))))"
    using bsonDate_gt [of "fst (Now w) - 60 * Second"]
    by (intro length_filter_mono) auto
  have third: "fst (CheckRateLimit email ip
                 (w\<lparr>db := (db w)\<lparr>Attempts := (Attempts (db w))
                        \<lparr>docs := docs (Attempts (db w)) @ others\<rparr>\<rparr>\<rparr>))
          = fst (CheckRateLimit email ip w)"
    if o: "\<forall>a \<in> set others. Success a \<or> 60 * Second + Millisecond \<le> fst (Now w) - Timestamp a"
    for others
  proof -
    let ?w' = "w\<lparr>db := (db w)\<lparr>Attempts := (Attempts (db w))
                        \<lparr>docs := docs (Attempts (db w)) @ others\<rparr>\<rparr>\<rparr>"
    have n: "fst (Now ?w') = fst (Now w)"
      by (simp add: Now_def split: list.splits)
    have "filter ?q others = []"
      using o bsonDate_gt [of "fst (Now w) - 60 * Second"]
      by (auto simp: filter_empty_conv)
    then have "filter ?q (docs (Attempts (db ?w'))) = filter ?q (docs (Attempts (db w)))"
      by simp
    moreover have "read_fault (Attempts (db ?w')) = None"
      using assms by simp
    ultimately show ?thesis
      using eq [of ?w'] eq [OF assms] n by (simp only: p)
  qed
  from first lower upper third show ?thesis
    by (simp add: CheckRateLimit_db)
qed

theorem CheckRateLimit_counts_witness:
  "fst (CheckRateLimit ''a@x.com'' ''unknown'' throttled_world) = (False, None)
   \<and> db (snd (CheckRateLimit ''a@x.com'' ''unknown'' throttled_world)) = db throttled_world
   \<and> fst (CheckRateLimit ''a@x.com'' ''unknown''
           (throttled_world\<lparr>db := (db throttled_world)\<lparr>Attempts := (Attempts (db throttled_world))
              \<lparr>docs := docs (Attempts (db throttled_world))
                        @ [success_now, failure 1699999900000000000]\<rparr>\<rparr>\<rparr>)) = (False, None)"
proof -
  have a: "read_fault (Attempts (db throttled_world)) = None"
    by (simp add: example_defs)
  have b: "\<forall>a \<in> set [success_now, failure 1699999900000000000].
             Success a \<or> 60 * Second + Millisecond \<le> fst (Now throttled_world) - Timestamp a"
    by (simp add: example_defs success_now_def Now_def)
  have c: "(length (filter (\<lambda>a. AttemptEmail a = ''a@x.com'' \<and> IPAddress a = ''unknown''
                                 \<and> \<not> Success a
                                 \<and> bsonDate (fst (Now throttled_world) - 60 * Second) \<le> Timestamp a)
                      (docs (Attempts (db throttled_world)))) < 5) = False"
    by (simp add: example_defs Now_def bsonDate_def)
  from CheckRateLimit_counts [OF a, of "''a@x.com''" "''unknown''"] b c
  show ?thesis by simp
qed

text \<open>
  The claim as it was stated fails half a millisecond after the minute: the five failures
  are older than sixty seconds, and the login is still refused.
\<close>

theorem CheckRateLimit_counts_stale_attempts:
  "docs (Attempts (db late_world)) =
     [failure 1699999940000000000, failure 1699999940000000000, failure 1699999940000000000,
      failure 1699999940000000000, failure 1699999940000000000]
   \<and> 60 * Second < fst (Now late_world) - Timestamp (failure 1699999940000000000)
   \<and> read_fault (Attempts (db late_world)) = None
   \<and> fst (CheckRateLimit ''a@x.com'' ''unknown'' late_world) = (False, None)"
  by (simp add: service_defs example_defs Let_def)

section \<open>Login\<close>

lemma Login_rejected_early:
  assumes "ValidateEmail lib (ReqEmail req) \<noteq> None \<or> ReqPassword req = []"
  shows "\<exists>m. Login lib s ctx req w = (Inl (Status InvalidArgument m), w)"
  using assms by (auto simp: Login_def Let_def split: option.splits)

lemma Login_check_failed:
  assumes "ValidateEmail lib (ReqEmail req) = None" and "ReqPassword req \<noteq> []"
    and "snd (fst (CheckRateLimit (ReqEmail req) (getClientIP ctx) w)) = Some e"
  shows "Login lib s ctx req w = (Inl (Status Internal ''failed to check rate limit''), snd (Now w))"
  using assms
  by (simp add: Login_def Let_def split_beta CheckRateLimit_snd)

lemma Login_denied:
  assumes "ValidateEmail lib (ReqEmail req) = None" and "ReqPassword req \<noteq> []"
    and "fst (CheckRateLimit (ReqEmail req) (getClientIP ctx) w) = (False, None)"
  shows "Login lib s ctx req w =
           (Inl (Status ResourceExhausted ''too many login attempts, please try again later''),
            snd (Now w))"
  using assms
  by (simp add: Login_def Let_def split_beta CheckRateLimit_snd)

lemma Login_allowed:
  assumes "ValidateEmail lib (ReqEmail req) = None" and "ReqPassword req \<noteq> []"
    and "fst (CheckRateLimit (ReqEmail req) (getClientIP ctx) w) = (True, None)"
  shows "Login lib s ctx req w =
     (let w1 = snd (Now w) in
      case FindOne (Users (db w)) (\<lambda>u. Email u = ReqEmail req \<and> IsDeleted u = False) of
        Inl err \<Rightarrow>
          (if err = ErrNoDocuments then Inl (Status NotFound ''invalid email or password'')
           else Inl (Status Internal ''failed to find user''),
           snd (RecordLoginAttempt (ReqEmail req) (getClientIP ctx) False w1))
      | Inr user \<Rightarrow>
          if \<not> CheckPasswordHash lib (ReqPassword req) (Password user)
          then (Inl (Status Unauthenticated ''invalid email or password''),
                snd (RecordLoginAttempt (ReqEmail req) (getClientIP ctx) False w1))
          else if \<not> IsActive user
          then (Inl (Status PermissionDenied ''account is deactivated/deleted''), w1)
          else
            (case fst (GenerateToken lib (jwtService s) (Hex lib (ID user)) (Email user) w1) of
               Inl err \<Rightarrow> (Inl (Status Internal ''failed to generate token''),
                           snd (GenerateToken lib (jwtService s) (Hex lib (ID user)) (Email user) w1))
             | Inr token \<Rightarrow>
                 (Inr \<lparr>RespToken = token, RespUser = toProto lib user,
                       RespMessage = ''Login success''\<rparr>,
                  snd (RecordLoginAttempt (ReqEmail req) (getClientIP ctx) True
                         (snd (GenerateToken lib (jwtService s) (Hex lib (ID user)) (Email user) w1))))))"
  using assms
  by (simp add: Login_def Let_def split_beta CheckRateLimit_snd Now_db split: sum.splits)

lemma RecordLoginAttempt_appends:
  assumes "write_fault (Attempts (db w)) = None"
  shows "\<exists>a. docs (Attempts (db (snd (RecordLoginAttempt e ip b w)))) = docs (Attempts (db w)) @ [a]
            \<and> AttemptEmail a = e \<and> IPAddress a = ip \<and> Success a = b
            \<and> Timestamp a = bsonDate (fst (Now w))"
  using assms
  by (simp add: RecordLoginAttempt_def InsertOne_def Let_def split_beta Now_db NewObjectID_db
        bsonAttempt_fields)

text \<open>
  C5. A login whose input passes validation and for which the rate-limit check answers
  "not allowed" fails with \<open>ResourceExhausted\<close> and leaves the database, the attempts
  among it, as it was. The users are not looked up: the result is the same whatever the
  collection of the users holds and whether or not it can be read.
\<close>

theorem Login_throttled:
  assumes "ValidateEmail lib (ReqEmail req) = None" and "ReqPassword req \<noteq> []"
    and "fst (CheckRateLimit (ReqEmail req) (getClientIP ctx) w) = (False, None)"
  shows "fst (Login lib s ctx req w) =
           Inl (Status ResourceExhausted ''too many login attempts, please try again later'')
    \<and> db (snd (Login lib s ctx req w)) = db w
    \<and> (\<forall>users. fst (Login lib s ctx req (w\<lparr>db := (db w)\<lparr>Users := users\<rparr>\<rparr>)) =
          Inl (Status ResourceExhausted ''too many login attempts, please try again later''))"
proof -
  have "fst (Login lib s ctx req (w\<lparr>db := (db w)\<lparr>Users := users\<rparr>\<rparr>)) =
          Inl (Status ResourceExhausted ''too many login attempts, please try again later'')"
    for users
    using assms Login_denied [of lib req ctx "w\<lparr>db := (db w)\<lparr>Users := users\<rparr>\<rparr>" s]
    by (simp add: CheckRateLimit_Users)
  then show ?thesis
    using Login_denied [OF assms, of s] by (simp add: Now_db)
qed

theorem Login_throttled_witness:
  "fst (Login example_lib example_service None alice_login throttled_world) =
     Inl (Status ResourceExhausted ''too many login attempts, please try again later'')
   \<and> db (snd (Login example_lib example_service None alice_login throttled_world))
       = db throttled_world
   \<and> fst (Login example_lib example_service None alice_login
            (throttled_world\<lparr>db := (db throttled_world)
               \<lparr>Users := \<lparr>docs = [], read_fault = Some ''no reachable servers'', write_fault = None\<rparr>\<rparr>\<rparr>))
       = Inl (Status ResourceExhausted ''too many login attempts, please try again later'')"
proof -
  have a: "ValidateEmail example_lib (ReqEmail alice_login) = None"
    by (simp add: alice_login_def ValidateEmail_def MaxEmailLength_def example_lib_def)
  have b: "ReqPassword alice_login \<noteq> []"
    by (simp add: alice_login_def)
  have c: "fst (CheckRateLimit (ReqEmail alice_login) (getClientIP None) throttled_world)
             = (False, None)"
    by (simp add: alice_login_def service_defs example_defs Let_def)
  from Login_throttled [OF a b c, of example_service] show ?thesis by simp
qed

text \<open>
  C6. Take two logins that pass validation and the rate limit: one for an identity with
  no credential that is not deleted, one for an identity whose credential is found but
  whose secret does not match. Both fail with the message
  \<open>invalid email or password\<close>. (The status codes differ: \<open>NotFound\<close> for the first,
  \<open>Unauthenticated\<close> for the second.)
\<close>

theorem Login_same_message:
  assumes "ValidateEmail lib (ReqEmail reqA) = None" and "ReqPassword reqA \<noteq> []"
    and "fst (CheckRateLimit (ReqEmail reqA) (getClientIP ctxA) wA) = (True, None)"
    and "read_fault (Users (db wA)) = None"
    and "\<forall>u \<in> set (docs (Users (db wA))). Email u = ReqEmail reqA \<longrightarrow> IsDeleted u"
    and "ValidateEmail lib (ReqEmail reqB) = None" and "ReqPassword reqB \<noteq> []"
    and "fst (CheckRateLimit (ReqEmail reqB) (getClientIP ctxB) wB) = (True, None)"
    and "FindOne (Users (db wB)) (\<lambda>u. Email u = ReqEmail reqB \<and> IsDeleted u = False) = Inr user"
    and "\<not> CheckPasswordHash lib (ReqPassword reqB) (Password user)"
  shows "fst (Login lib s ctxA reqA wA) = Inl (Status NotFound ''invalid email or password'')
       \<and> fst (Login lib s ctxB reqB wB) = Inl (Status Unauthenticated ''invalid email or password'')
       \<and> StatusMessage (Status NotFound ''invalid email or password'')
           = StatusMessage (Status Unauthenticated ''invalid email or password'')"
proof -
  have "FindOne (Users (db wA)) (\<lambda>u. Email u = ReqEmail reqA \<and> IsDeleted u = False)
          = Inl ErrNoDocuments"
    using assms(4,5) by (intro FindOne_missing) auto
  then have a: "fst (Login lib s ctxA reqA wA) = Inl (Status NotFound ''invalid email or password'')"
    using Login_allowed [OF assms(1,2,3), of s] by (simp add: Let_def)
  have b: "fst (Login lib s ctxB reqB wB) = Inl (Status Unauthenticated ''invalid email or password'')"
    using Login_allowed [OF assms(6,7,8), of s] assms(9,10) by (simp add: Let_def)
  from a b show ?thesis by simp
qed

theorem Login_same_message_witness:
  "fst (Login example_lib example_service None nobody_login example_world)
     = Inl (Status NotFound ''invalid email or password'')
   \<and> fst (Login example_lib example_service None wrong_login example_world)
     = Inl (Status Unauthenticated ''invalid email or password'')"
proof -
  have a1: "ValidateEmail example_lib (ReqEmail nobody_login) = None"
    by (simp add: request_defs ValidateEmail_def MaxEmailLength_def example_lib_def)
  have a2: "ReqPassword nobody_login \<noteq> []"
    by (simp add: request_defs)
  have a3: "fst (CheckRateLimit (ReqEmail nobody_login) (getClientIP None) example_world)
              = (True, None)"
    by (simp add: request_defs service_defs example_defs Let_def)
  have a4: "read_fault (Users (db example_world)) = None"
    by (simp add: example_defs)
  have a5: "\<forall>u \<in> set (docs (Users (db example_world))).
              Email u = ReqEmail nobody_login \<longrightarrow> IsDeleted u"
    by (simp add: request_defs example_defs)
  have b1: "ValidateEmail example_lib (ReqEmail wrong_login) = None"
    by (simp add: request_defs ValidateEmail_def MaxEmailLength_def example_lib_def)
  have b2: "ReqPassword wrong_login \<noteq> []"
    by (simp add: request_defs)
  have b3: "fst (CheckRateLimit (ReqEmail wrong_login) (getClientIP None) example_world)
              = (True, None)"
    by (simp add: request_defs service_defs example_defs Let_def)
  have b4: "FindOne (Users (db example_world))
              (\<lambda>u. Email u = ReqEmail wrong_login \<and> IsDeleted u = False) = Inr alice"
    by (simp add: request_defs FindOne_def example_defs)
  have b5: "\<not> CheckPasswordHash example_lib (ReqPassword wrong_login) (Password alice)"
    by (simp add: request_defs CheckPasswordHash_def example_defs)
  from Login_same_message [OF a1 a2 a3 a4 a5 b1 b2 b3 b4 b5, of example_service]
  show ?thesis by simp
qed

section \<open>Invalidating\<close>

lemma InvalidateToken_panics:
  assumes "ParseWithClaims lib t (\<lambda>token. Inr (secretKey j)) w = (Inr token, w1)"
    and "ExpiresAt (Claims token) = None"
  shows "InvalidateToken lib j t u w = (Panics, w1)"
  using assms by (simp add: InvalidateToken_def)

lemma InvalidateToken_unfold:
  assumes "ParseWithClaims lib t (\<lambda>token. Inr (secretKey j)) w = (parsed, w1)"
    and "\<forall>token. parsed = Inr token \<longrightarrow> ExpiresAt (Claims token) = Some (expiry token)"
  shows "InvalidateToken lib j t u w =
     (let (expiryTime, w2) =
            (case parsed of
               Inr token \<Rightarrow> (expiry token, w1)
             | Inl errs \<Rightarrow> (fst (Now w1) + tokenTTL j, snd (Now w1)))
      in case ObjectIDFromHex lib u of
           Inl e \<Rightarrow> (Returns (Some (InvalidUserID e)), w2)
         | Inr oid \<Rightarrow>
             (let w4 = snd (NewObjectID (snd (Now w2)));
                  d = \<lparr>TokenID = fst (NewObjectID (snd (Now w2))), Token = t, TokenUserID = oid,
                       TokenExpiresAt = expiryTime, TokenCreatedAt = fst (Now w2)\<rparr>
              in case InsertOne bsonToken [Token] (Tokens (db w)) d of
                   Inl e \<Rightarrow> (Returns (Some (InvalidateFailed e)), w4)
                 | Inr c \<Rightarrow> (Returns None, w4\<lparr>db := (db w4)\<lparr>Tokens := c\<rparr>\<rparr>)))"
proof -
  have dbw1: "db w1 = db w"
    using ParseWithClaims_db [of lib t "\<lambda>token. Inr (secretKey j)" w] assms(1) by simp
  show ?thesis
  proof (cases parsed)
    case (Inl errs)
    then show ?thesis
      using assms(1) dbw1
      by (simp add: InvalidateToken_def Let_def split_beta Now_db NewObjectID_db
               split: sum.splits)
  next
    case (Inr token)
    then show ?thesis
      using assms dbw1
      by (simp add: InvalidateToken_def Let_def split_beta Now_db NewObjectID_db
               split: sum.splits)
  qed
qed

text \<open>
  What \<open>InvalidateToken\<close> does for a token that carries an expiry whenever it parses:
  it answers an identity that \<open>ObjectIDFromHex\<close> rejects with \<open>InvalidUserID\<close> and a write
  that the store refuses with \<open>InvalidateFailed\<close>, and otherwise appends one record, whose
  expiry is the expiry claim of the token when the token parsed, and the clock reading
  after the failed parse plus the time to live of the service when it did not, each as
  the store keeps it.
\<close>

lemma InvalidateToken_with_expiry:
  assumes "ParseWithClaims lib t (\<lambda>token. Inr (secretKey j)) w = (parsed, w1)"
    and "\<forall>token. parsed = Inr token \<longrightarrow> ExpiresAt (Claims token) \<noteq> None"
  shows "(ObjectIDFromHex lib u = Inl e \<longrightarrow>
            fst (InvalidateToken lib j t u w) = Returns (Some (InvalidUserID e))
            \<and> db (snd (InvalidateToken lib j t u w)) = db w)
    \<and> (ObjectIDFromHex lib u = Inr oid \<and> write_fault (Tokens (db w)) = Some m \<longrightarrow>
            fst (InvalidateToken lib j t u w) = Returns (Some (InvalidateFailed (CommandError m)))
            \<and> db (snd (InvalidateToken lib j t u w)) = db w)
    \<and> (ObjectIDFromHex lib u = Inr oid \<and> write_fault (Tokens (db w)) = None
          \<and> (\<exists>d \<in> set (docs (Tokens (db w))). Token d = t) \<longrightarrow>
            fst (InvalidateToken lib j t u w) = Returns (Some (InvalidateFailed DuplicateKey))
            \<and> db (snd (InvalidateToken lib j t u w)) = db w)
    \<and> (ObjectIDFromHex lib u = Inr oid \<and> write_fault (Tokens (db w)) = None
          \<and> (\<forall>d \<in> set (docs (Tokens (db w))). Token d \<noteq> t) \<longrightarrow>
            fst (InvalidateToken lib j t u w) = Returns None
            \<and> (\<exists>d. docs (Tokens (db (snd (InvalidateToken lib j t u w))))
                       = docs (Tokens (db w)) @ [d]
                  \<and> Token d = t \<and> TokenUserID d = oid
                  \<and> (\<forall>token. parsed = Inr token \<longrightarrow>
                        Some (TokenExpiresAt d) = map_option bsonDate (ExpiresAt (Claims token)))
                  \<and> (\<forall>errs. parsed = Inl errs \<longrightarrow>
                        TokenExpiresAt d = bsonDate (fst (Now w1) + tokenTTL j))))"
proof -
  have exp: "\<forall>token. parsed = Inr token \<longrightarrow>
               ExpiresAt (Claims token) = Some (the (ExpiresAt (Claims token)))"
    using assms(2) by simp
  note unfold = InvalidateToken_unfold [OF assms(1) exp, of u]
  have dbw1: "db w1 = db w"
    using ParseWithClaims_db [of lib t "\<lambda>token. Inr (secretKey j)" w] assms(1) by simp
  have a: "ObjectIDFromHex lib u = Inl e \<longrightarrow>
            fst (InvalidateToken lib j t u w) = Returns (Some (InvalidUserID e))
            \<and> db (snd (InvalidateToken lib j t u w)) = db w"
    unfolding unfold by (simp add: Let_def split_beta Now_db dbw1 split: sum.splits)
  have b: "ObjectIDFromHex lib u = Inr oid \<and> write_fault (Tokens (db w)) = Some m \<longrightarrow>
            fst (InvalidateToken lib j t u w) = Returns (Some (InvalidateFailed (CommandError m)))
            \<and> db (snd (InvalidateToken lib j t u w)) = db w"
    unfolding unfold
    by (simp add: Let_def split_beta Now_db NewObjectID_db dbw1 InsertOne_def split: sum.splits)
  have c: "ObjectIDFromHex lib u = Inr oid \<and> write_fault (Tokens (db w)) = None
          \<and> (\<exists>d \<in> set (docs (Tokens (db w))). Token d = t) \<longrightarrow>
            fst (InvalidateToken lib j t u w) = Returns (Some (InvalidateFailed DuplicateKey))
            \<and> db (snd (InvalidateToken lib j t u w)) = db w"
    unfolding unfold
    by (auto simp: Let_def split_beta Now_db NewObjectID_db dbw1 InsertOne_def list_ex_iff
             bsonToken_fields
             split: sum.splits)
  have d: "ObjectIDFromHex lib u = Inr oid \<and> write_fault (Tokens (db w)) = None
          \<and> (\<forall>d \<in> set (docs (Tokens (db w))). Token d \<noteq> t) \<longrightarrow>
            fst (InvalidateToken lib j t u w) = Returns None
            \<and> (\<exists>d. docs (Tokens (db (snd (InvalidateToken lib j t u w))))
                       = docs (Tokens (db w)) @ [d]
                  \<and> Token d = t \<and> TokenUserID d = oid
                  \<and> (\<forall>token. parsed = Inr token \<longrightarrow>
                        Some (TokenExpiresAt d) = map_option bsonDate (ExpiresAt (Claims token)))
                  \<and> (\<forall>errs. parsed = Inl errs \<longrightarrow>
                        TokenExpiresAt d = bsonDate (fst (Now w1) + tokenTTL j)))"
    unfolding unfold using assms(2)
    by (auto simp: Let_def split_beta Now_db NewObjectID_db dbw1 InsertOne_def list_ex_iff
             bsonToken_fields
             split: sum.splits)
  from a b c d show ?thesis by blast
qed

text \<open>
  C7. The claim holds of the tokens of the lemma above, and fails on a token that parses
  and carries no expiry claim, where the code reads the expiry through a nil pointer.
  The codec of the instance accepts \<open>''noexp''\<close>, signed with the key of the service:
  \<open>ValidateToken\<close> returns its claims and the parse of \<open>InvalidateToken\<close> succeeds. Then
  \<open>InvalidateToken\<close> panics: no record is inserted, an identity that
  \<open>ObjectIDFromHex\<close> rejects is not answered with \<open>InvalidUserID\<close>, and \<open>Logout\<close>, which
  hands the token on after validating it, panics with it.
\<close>

theorem InvalidateToken_without_expiry:
  "fst (ValidateToken example_lib (jwtService example_service) ''noexp'' example_world)
     = Inr (example_claims\<lparr>ExpiresAt := None\<rparr>)
   \<and> fst (ParseWithClaims example_lib ''noexp''
            (\<lambda>token. Inr (secretKey (jwtService example_service))) example_world)
     = Inr \<lparr>Method = SigningMethodHMAC ''HS256'', Claims = example_claims\<lparr>ExpiresAt := None\<rparr>,
            Valid = True\<rparr>
   \<and> fst (InvalidateToken example_lib (jwtService example_service) ''noexp'' example_hex
            example_world) = Panics
   \<and> docs (Tokens (db (snd (InvalidateToken example_lib (jwtService example_service) ''noexp''
                               example_hex example_world)))) = []
   \<and> ObjectIDFromHex example_lib ''xyz'' = Inl ''the provided hex string is not a valid ObjectID''
   \<and> fst (InvalidateToken example_lib (jwtService example_service) ''noexp'' ''xyz''
            example_world) = Panics
   \<and> fst (Logout example_lib example_service \<lparr>ReqToken = ''noexp''\<rparr> example_world) = Panics"
  by (simp add: service_defs example_defs Let_def)

section \<open>The attempts a login records\<close>

text \<open>
  C8, as the code has it. When the attempts can be written, what a login appends to them
  follows from what happens in it. One attempt for its identity and origin, with the flag
  false, when the lookup of the user fails and when the user is found and the secret does
  not match; one with the flag true when the user is found, the secret matches, the
  account is active and the token is signed. Nothing when the input is invalid, when the
  rate-limit check fails or denies, when the account is inactive and when the token cannot
  be signed.
\<close>

theorem Login_records_attempt:
  assumes "write_fault (Attempts (db w)) = None"
  shows "(ValidateEmail lib (ReqEmail req) \<noteq> None \<or> ReqPassword req = [] \<longrightarrow>
           appends w (snd (Login lib s ctx req w)) [])
    \<and> (ValidateEmail lib (ReqEmail req) = None \<and> ReqPassword req \<noteq> [] \<longrightarrow>
         (if fst (CheckRateLimit (ReqEmail req) (getClientIP ctx) w) \<noteq> (True, None)
          then appends w (snd (Login lib s ctx req w)) []
          else
            (case FindOne (Users (db w)) (\<lambda>u. Email u = ReqEmail req \<and> IsDeleted u = False) of
               Inl err \<Rightarrow>
                 (\<exists>a. appends w (snd (Login lib s ctx req w)) [a] \<and> attempt_of req ctx False a)
             | Inr user \<Rightarrow>
                 if \<not> CheckPasswordHash lib (ReqPassword req) (Password user)
                 then (\<exists>a. appends w (snd (Login lib s ctx req w)) [a] \<and> attempt_of req ctx False a)
                 else if \<not> IsActive user
                 then appends w (snd (Login lib s ctx req w)) []
                 else
                   (case fst (GenerateToken lib (jwtService s) (Hex lib (ID user)) (Email user)
                                (snd (Now w))) of
                      Inl err \<Rightarrow> appends w (snd (Login lib s ctx req w)) []
                    | Inr token \<Rightarrow>
                        (\<exists>a. appends w (snd (Login lib s ctx req w)) [a]
                             \<and> attempt_of req ctx True a)))))"
proof -
  let ?e = "ReqEmail req" and ?ip = "getClientIP ctx"
  have rec1: "\<exists>a. appends w (snd (RecordLoginAttempt ?e ?ip b (snd (Now w)))) [a]
                 \<and> attempt_of req ctx b a" for b
    using RecordLoginAttempt_appends [of "snd (Now w)" ?e ?ip b] assms
    by (auto simp: Now_db attempt_of_def appends_def)
  have rec2: "\<exists>a. appends w (snd (RecordLoginAttempt ?e ?ip b
                      (snd (GenerateToken lib j u m (snd (Now w)))))) [a]
                 \<and> attempt_of req ctx b a" for b j u m
    using RecordLoginAttempt_appends [of "snd (GenerateToken lib j u m (snd (Now w)))" ?e ?ip b] assms
    by (auto simp: Now_db GenerateToken_db attempt_of_def appends_def)
  have same: "appends w (snd (Now w)) []" "appends w w []"
      "\<And>j u m. appends w (snd (GenerateToken lib j u m (snd (Now w)))) []"
    by (simp_all add: appends_def Now_db GenerateToken_db)
  have early: "appends w (snd (Login lib s ctx req w)) []"
    if "ValidateEmail lib ?e \<noteq> None \<or> ReqPassword req = []"
    using Login_rejected_early [OF that, of s ctx w] same by auto
  have rest: "?thesis" if v: "ValidateEmail lib ?e = None" "ReqPassword req \<noteq> []"
  proof (cases "fst (CheckRateLimit ?e ?ip w) = (True, None)")
    case True
    show ?thesis
      using v True rec1 rec2 same
      unfolding Login_allowed [OF v True, of s] Let_def
      by (simp split: sum.splits)
  next
    case False
    obtain a b where ab: "fst (CheckRateLimit ?e ?ip w) = (a, b)"
      by (cases "fst (CheckRateLimit ?e ?ip w)")
    have "appends w (snd (Login lib s ctx req w)) []"
    proof (cases b)
      case None
      with ab False have "fst (CheckRateLimit ?e ?ip w) = (False, None)"
        by (cases a) auto
      then show ?thesis
        using Login_denied [OF v, of ctx w s] same by simp
    next
      case (Some er)
      with ab have "snd (fst (CheckRateLimit ?e ?ip w)) = Some er" by simp
      then show ?thesis
        using Login_check_failed [OF v, of ctx w er s] same by simp
    qed
    with v False show ?thesis by simp
  qed
  show ?thesis
  proof (cases "ValidateEmail lib ?e \<noteq> None \<or> ReqPassword req = []")
    case True
    with early show ?thesis by auto
  next
    case False
    then show ?thesis using rest by simp
  qed
qed

theorem Login_records_attempt_witness:
  "appends example_world
     (snd (Login example_lib example_service None empty_login example_world)) []
   \<and> appends throttled_world
       (snd (Login example_lib example_service None alice_login throttled_world)) []
   \<and> (\<exists>a. appends example_world
              (snd (Login example_lib example_service None nobody_login example_world)) [a]
          \<and> attempt_of nobody_login None False a)
   \<and> (\<exists>a. appends example_world
              (snd (Login example_lib example_service None wrong_login example_world)) [a]
          \<and> attempt_of wrong_login None False a)
   \<and> appends dormant_world
       (snd (Login example_lib example_service None alice_login dormant_world)) []
   \<and> appends later_world
       (snd (Login example_lib example_service None alice_login later_world)) []
   \<and> (\<exists>a. appends example_world
              (snd (Login example_lib example_service None alice_login example_world)) [a]
          \<and> attempt_of alice_login None True a)"
proof -
  note defs = request_defs service_defs example_defs Let_def
  have w: "write_fault (Attempts (db example_world)) = None"
      "write_fault (Attempts (db throttled_world)) = None"
      "write_fault (Attempts (db dormant_world)) = None"
      "write_fault (Attempts (db later_world)) = None"
    by (simp_all add: example_defs)
  have v: "ValidateEmail example_lib (ReqEmail alice_login) = None"
      "ValidateEmail example_lib (ReqEmail nobody_login) = None"
      "ValidateEmail example_lib (ReqEmail wrong_login) = None"
      "ReqPassword alice_login \<noteq> []" "ReqPassword nobody_login \<noteq> []"
      "ReqPassword wrong_login \<noteq> []" "ReqPassword empty_login = []"
    by (simp_all add: request_defs ValidateEmail_def MaxEmailLength_def example_lib_def)
  have r: "fst (CheckRateLimit (ReqEmail alice_login) (getClientIP None) throttled_world)
             = (False, None)"
      "fst (CheckRateLimit (ReqEmail alice_login) (getClientIP None) example_world) = (True, None)"
      "fst (CheckRateLimit (ReqEmail nobody_login) (getClientIP None) example_world) = (True, None)"
      "fst (CheckRateLimit (ReqEmail wrong_login) (getClientIP None) example_world) = (True, None)"
      "fst (CheckRateLimit (ReqEmail alice_login) (getClientIP None) dormant_world) = (True, None)"
      "fst (CheckRateLimit (ReqEmail alice_login) (getClientIP None) later_world) = (True, None)"
    by (simp_all add: defs)
  have f: "FindOne (Users (db example_world))
             (\<lambda>u. Email u = ReqEmail nobody_login \<and> IsDeleted u = False) = Inl ErrNoDocuments"
      "FindOne (Users (db example_world))
             (\<lambda>u. Email u = ReqEmail wrong_login \<and> IsDeleted u = False) = Inr alice"
      "FindOne (Users (db example_world))
             (\<lambda>u. Email u = ReqEmail alice_login \<and> IsDeleted u = False) = Inr alice"
      "FindOne (Users (db later_world))
             (\<lambda>u. Email u = ReqEmail alice_login \<and> IsDeleted u = False) = Inr alice"
      "FindOne (Users (db dormant_world))
             (\<lambda>u. Email u = ReqEmail alice_login \<and> IsDeleted u = False)
         = Inr (alice\<lparr>IsActive := False\<rparr>)"
    by (simp_all add: request_defs FindOne_def example_defs)
  have p: "\<not> CheckPasswordHash example_lib (ReqPassword wrong_login) (Password alice)"
      "CheckPasswordHash example_lib (ReqPassword alice_login) (Password alice)"
      "CheckPasswordHash example_lib (ReqPassword alice_login) (Password (alice\<lparr>IsActive := False\<rparr>))"
      "IsActive alice" "\<not> IsActive (alice\<lparr>IsActive := False\<rparr>)"
    by (simp_all add: request_defs CheckPasswordHash_def example_defs)
  have g: "fst (GenerateToken example_lib (jwtService example_service) (Hex example_lib (ID alice))
                  (Email alice) (snd (Now example_world))) = Inr ''tok''"
      "fst (GenerateToken example_lib (jwtService example_service) (Hex example_lib (ID alice))
                  (Email alice) (snd (Now later_world))) = Inl ''key is invalid''"
    by (simp_all add: defs)
  have c1: "appends example_world
              (snd (Login example_lib example_service None empty_login example_world)) []"
    using Login_records_attempt [OF w(1), of example_lib empty_login example_service None] v
    by simp
  have c2: "appends throttled_world
              (snd (Login example_lib example_service None alice_login throttled_world)) []"
    using Login_records_attempt [OF w(2), of example_lib alice_login example_service None] v r
    by simp
  have c3: "\<exists>a. appends example_world
              (snd (Login example_lib example_service None nobody_login example_world)) [a]
          \<and> attempt_of nobody_login None False a"
    using Login_records_attempt [OF w(1), of example_lib nobody_login example_service None] v r f
    by simp
  have c4: "\<exists>a. appends example_world
              (snd (Login example_lib example_service None wrong_login example_world)) [a]
          \<and> attempt_of wrong_login None False a"
    using Login_records_attempt [OF w(1), of example_lib wrong_login example_service None] v r f p
    by simp
  have c5: "appends dormant_world
              (snd (Login example_lib example_service None alice_login dormant_world)) []"
    using Login_records_attempt [OF w(3), of example_lib alice_login example_service None] v r f p
    by simp
  have c6: "appends later_world
              (snd (Login example_lib example_service None alice_login later_world)) []"
    using Login_records_attempt [OF w(4), of example_lib alice_login example_service None] v r f p g
    by simp
  have c7: "\<exists>a. appends example_world
              (snd (Login example_lib example_service None alice_login example_world)) [a]
          \<and> attempt_of alice_login None True a"
    using Login_records_attempt [OF w(1), of example_lib alice_login example_service None] v r f p g
    by simp
  from c1 c2 c3 c4 c5 c6 c7 show ?thesis by simp
qed

text \<open>
  The claim as it was stated fails on a login that the rate limit denies: it reaches the
  rate-limit check and leaves the attempts as they were.
\<close>

theorem Login_denied_records_nothing:
  "ValidateEmail example_lib (ReqEmail alice_login) = None
   \<and> ReqPassword alice_login \<noteq> []
   \<and> fst (CheckRateLimit (ReqEmail alice_login) (getClientIP None) throttled_world) = (False, None)
   \<and> fst (Login example_lib example_service None alice_login throttled_world) =
       Inl (Status ResourceExhausted ''too many login attempts, please try again later'')
   \<and> docs (Attempts (db (snd (Login example_lib example_service None alice_login throttled_world))))
       = docs (Attempts (db throttled_world))
   \<and> length (docs (Attempts (db (snd (Login example_lib example_service None alice_login
                                         throttled_world)))))
       \<noteq> length (docs (Attempts (db throttled_world))) + 1"
  by (simp add: alice_login_def service_defs example_defs Let_def)

section \<open>A store that cannot be read\<close>




section \<open>Deleted credentials\<close>

text \<open>
  C10. Let the users hold a credential for an identity, deleted like every credential of
  that identity, and let the store be readable. A registration whose input passes
  validation and whose identity, once trimmed, is that one fails with \<open>AlreadyExists\<close>
  and changes nothing; a login for the same identity that passes validation and the rate
  limit fails like a login for an identity nobody has, with \<open>NotFound\<close>.
\<close>

theorem Register_sees_deleted:
  assumes "ValidateEmail lib (SanitizeString lib (RegEmail rreq)) = None"
    and "ValidatePassword lib (RegPassword rreq) = None"
    and "ValidateName lib (SanitizeString lib (RegName rreq)) ''name'' = None"
    and "read_fault (Users (db w)) = None"
    and "u \<in> set (docs (Users (db w)))"
    and "Email u = SanitizeString lib (RegEmail rreq)"
    and "\<forall>v \<in> set (docs (Users (db w))). Email v = Email u \<longrightarrow> IsDeleted v"
    and "ReqEmail lreq = Email u" and "ReqPassword lreq \<noteq> []"
    and "fst (CheckRateLimit (ReqEmail lreq) (getClientIP ctx) w) = (True, None)"
  shows "IsDeleted u
    \<and> Register lib s rreq w = (Inl (Status AlreadyExists ''email already exists''), w)
    \<and> fst (Login lib s ctx lreq w) = Inl (Status NotFound ''invalid email or password'')"
proof -
  from assms(5,7) have del: "IsDeleted u" by simp
  from assms(4,5) obtain d where
    "FindOne (Users (db w)) (\<lambda>v. Email v = SanitizeString lib (RegEmail rreq)) = Inr d"
    using FindOne_found [of "Users (db w)" u "\<lambda>v. Email v = SanitizeString lib (RegEmail rreq)"]
      assms(6) by blast
  then have reg: "Register lib s rreq w = (Inl (Status AlreadyExists ''email already exists''), w)"
    using assms(1,2,3) by (simp add: Register_def Let_def)
  have "FindOne (Users (db w)) (\<lambda>v. Email v = ReqEmail lreq \<and> IsDeleted v = False)
          = Inl ErrNoDocuments"
    using assms(4,7,8) by (intro FindOne_missing) auto
  moreover have "ValidateEmail lib (ReqEmail lreq) = None"
    using assms(1,6,8) by simp
  ultimately have "fst (Login lib s ctx lreq w) = Inl (Status NotFound ''invalid email or password'')"
    using Login_allowed [of lib lreq ctx w s] assms(9,10) by (simp add: Let_def)
  with del reg show ?thesis by simp
qed

theorem Register_sees_deleted_witness:
  "IsDeleted bob
   \<and> Register example_lib example_service bob_again example_world
       = (Inl (Status AlreadyExists ''email already exists''), example_world)
   \<and> fst (Login example_lib example_service None bob_login example_world)
       = Inl (Status NotFound ''invalid email or password'')"
proof -
  have a1: "ValidateEmail example_lib (SanitizeString example_lib (RegEmail bob_again)) = None"
    by (simp add: request_defs ValidateEmail_def SanitizeString_def MaxEmailLength_def example_lib_def)
  have a2: "ValidatePassword example_lib (RegPassword bob_again) = None"
    by (simp add: request_defs service_defs example_lib_def Let_def)
  have a3: "ValidateName example_lib (SanitizeString example_lib (RegName bob_again)) ''name'' = None"
    by (simp add: request_defs service_defs example_lib_def)
  have a4: "read_fault (Users (db example_world)) = None"
    by (simp add: example_defs)
  have a5: "bob \<in> set (docs (Users (db example_world)))"
    by (simp add: example_world_def)
  have a6: "Email bob = SanitizeString example_lib (RegEmail bob_again)"
    by (simp add: request_defs SanitizeString_def example_defs)
  have a7: "\<forall>v \<in> set (docs (Users (db example_world))). Email v = Email bob \<longrightarrow> IsDeleted v"
    by (simp add: example_defs)
  have a8: "ReqEmail bob_login = Email bob"
    by (simp add: request_defs example_defs)
  have a9: "ReqPassword bob_login \<noteq> []"
    by (simp add: request_defs)
  have a10: "fst (CheckRateLimit (ReqEmail bob_login) (getClientIP None) example_world)
               = (True, None)"
    by (simp add: request_defs service_defs example_defs Let_def)
  from Register_sees_deleted [OF a1 a2 a3 a4 a5 a6 a7 a8 a9 a10, of example_service]
  show ?thesis .
qed

end
